theory Spec2Isabelle
  imports Complex_Main "HOL-Library.Log_Nat"
begin

section \<open>JavaScript numbers\<close>

text \<open>
  The services compute with JavaScript numbers. A number is modelled as a real or one of
  the three special values that division by zero and invalid operations produce. The
  operations \<open>js_add\<close>, \<open>js_sub\<close>, \<open>js_mul\<close> and \<open>js_div\<close> return the exact real
  result; the operations \<open>f64_add\<close>, \<open>f64_sub\<close>, \<open>f64_mul\<close> and \<open>f64_div\<close> further
  below round it to binary64, and the staffing calculator, where \<open>Math.ceil\<close> makes the
  last bit of a quotient or product count, is written with them. The sign of zero and
  the overflow of a finite result to Infinity are not modelled.
\<close>

datatype jsnum = Num real | PosInf | NegInf | NaN

fun js_neg :: "jsnum \<Rightarrow> jsnum" where
  "js_neg (Num a) = Num (- a)"
| "js_neg PosInf = NegInf"
| "js_neg NegInf = PosInf"
| "js_neg NaN = NaN"

fun js_add :: "jsnum \<Rightarrow> jsnum \<Rightarrow> jsnum" where
  "js_add (Num a) (Num b) = Num (a + b)"
| "js_add NaN y = NaN"
| "js_add x NaN = NaN"
| "js_add PosInf NegInf = NaN"
| "js_add NegInf PosInf = NaN"
| "js_add PosInf y = PosInf"
| "js_add NegInf y = NegInf"
| "js_add (Num a) y = y"

definition js_sub :: "jsnum \<Rightarrow> jsnum \<Rightarrow> jsnum" where
  "js_sub x y = js_add x (js_neg y)"

text \<open>The sign of a number: \<open>Some True\<close> positive, \<open>Some False\<close> negative,
  \<open>None\<close> for zero and NaN.\<close>

fun js_sign :: "jsnum \<Rightarrow> bool option" where
  "js_sign (Num a) = (if 0 < a then Some True else if a < 0 then Some False else None)"
| "js_sign PosInf = Some True"
| "js_sign NegInf = Some False"
| "js_sign NaN = None"

fun js_mul :: "jsnum \<Rightarrow> jsnum \<Rightarrow> jsnum" where
  "js_mul (Num a) (Num b) = Num (a * b)"
| "js_mul NaN y = NaN"
| "js_mul x NaN = NaN"
| "js_mul x y =
     (case (js_sign x, js_sign y) of
        (Some s, Some t) \<Rightarrow> if s = t then PosInf else NegInf
      | _ \<Rightarrow> NaN)"

fun js_div :: "jsnum \<Rightarrow> jsnum \<Rightarrow> jsnum" where
  "js_div (Num a) (Num b) =
     (if b \<noteq> 0 then Num (a / b)
      else if 0 < a then PosInf else if a < 0 then NegInf else NaN)"
| "js_div NaN y = NaN"
| "js_div x NaN = NaN"
| "js_div (Num a) y = Num 0"
| "js_div x (Num b) =
     (case js_sign x of
        Some s \<Rightarrow> if (0 \<le> b) = s then PosInf else NegInf
      | None \<Rightarrow> NaN)"
| "js_div x y = NaN"

fun js_lt :: "jsnum \<Rightarrow> jsnum \<Rightarrow> bool" where
  "js_lt (Num a) (Num b) = (a < b)"
| "js_lt NaN y = False"
| "js_lt x NaN = False"
| "js_lt x NegInf = False"
| "js_lt PosInf y = False"
| "js_lt x y = True"

definition js_le :: "jsnum \<Rightarrow> jsnum \<Rightarrow> bool" where
  "js_le x y = (x \<noteq> NaN \<and> y \<noteq> NaN \<and> (x = y \<or> js_lt x y))"

definition js_gt :: "jsnum \<Rightarrow> jsnum \<Rightarrow> bool" where
  "js_gt x y = js_lt y x"

definition js_ge :: "jsnum \<Rightarrow> jsnum \<Rightarrow> bool" where
  "js_ge x y = js_le y x"

text \<open>\<open>Math.max\<close> and \<open>Math.min\<close> return NaN as soon as one argument is NaN.\<close>

definition js_max :: "jsnum \<Rightarrow> jsnum \<Rightarrow> jsnum" where
  "js_max x y = (if x = NaN \<or> y = NaN then NaN else if js_lt x y then y else x)"

definition js_min :: "jsnum \<Rightarrow> jsnum \<Rightarrow> jsnum" where
  "js_min x y = (if x = NaN \<or> y = NaN then NaN else if js_lt y x then y else x)"

text \<open>\<open>Math.floor\<close>, \<open>Math.ceil\<close> and \<open>Math.round\<close> (which rounds a half upwards)
  leave the special values unchanged.\<close>

fun js_floor :: "jsnum \<Rightarrow> jsnum" where
  "js_floor (Num a) = Num (of_int \<lfloor>a\<rfloor>)"
| "js_floor x = x"

fun js_ceil :: "jsnum \<Rightarrow> jsnum" where
  "js_ceil (Num a) = Num (of_int \<lceil>a\<rceil>)"
| "js_ceil x = x"

fun js_round :: "jsnum \<Rightarrow> jsnum" where
  "js_round (Num a) = Num (of_int \<lfloor>a + 1 / 2\<rfloor>)"
| "js_round x = x"

text \<open>
  Rounding to binary64: to the nearest number with a 53-bit significand, a tie going to
  the even significand, with the subnormal numbers below \<open>2 powi - 1022\<close>. For a positive
  \<open>x\<close>, \<open>exponent x\<close> is the \<open>e\<close> with \<open>2 powi e \<le> x < 2 powi (e + 1)\<close> and \<open>ulp x\<close> is the
  distance between the binary64 numbers around \<open>x\<close>; \<open>nearest\<close> rounds a magnitude.
\<close>

definition round_half_even :: "real \<Rightarrow> int" where
  "round_half_even x =
     (let n = \<lfloor>x\<rfloor>; r = x - of_int n
      in if r < 1 / 2 then n else if 1 / 2 < r then n + 1 else if even n then n else n + 1)"

definition exponent :: "real \<Rightarrow> int" where
  "exponent x = (if 1 \<le> x then bitlen \<lfloor>x\<rfloor> - 1 else - bitlen (\<lceil>1 / x\<rceil> - 1))"

definition ulp :: "real \<Rightarrow> real" where
  "ulp x = 2 powi (max (exponent x) (- 1022) - 52)"

definition nearest :: "real \<Rightarrow> real" where
  "nearest x = (if x = 0 then 0 else of_int (round_half_even (x / ulp x)) * ulp x)"

definition binary64 :: "real \<Rightarrow> real" where
  "binary64 x = sgn x * nearest \<bar>x\<bar>"

text \<open>The arithmetic of binary64 numbers. A real of the model stands for the binary64
  number nearest to it (as a decimal literal does in the source), so an operation rounds
  its arguments and its result; on binary64 numbers it is the IEEE operation.\<close>

fun f64 :: "jsnum \<Rightarrow> jsnum" where
  "f64 (Num a) = Num (binary64 a)"
| "f64 x = x"

definition f64_add :: "jsnum \<Rightarrow> jsnum \<Rightarrow> jsnum" where
  "f64_add x y = f64 (js_add (f64 x) (f64 y))"

definition f64_sub :: "jsnum \<Rightarrow> jsnum \<Rightarrow> jsnum" where
  "f64_sub x y = f64 (js_sub (f64 x) (f64 y))"

definition f64_mul :: "jsnum \<Rightarrow> jsnum \<Rightarrow> jsnum" where
  "f64_mul x y = f64 (js_mul (f64 x) (f64 y))"

definition f64_div :: "jsnum \<Rightarrow> jsnum \<Rightarrow> jsnum" where
  "f64_div x y = f64 (js_div (f64 x) (f64 y))"

text \<open>\<open>values.reduce((sum, val) => sum + val, 0)\<close>\<close>

definition js_sum :: "jsnum list \<Rightarrow> jsnum" where
  "js_sum values = foldl js_add (Num 0) values"

text \<open>\<open>x || d\<close> on an optional database column: \<open>null\<close>, \<open>undefined\<close> and \<open>0\<close> are
  falsy and select the default.\<close>

definition or_default :: "'a::zero option \<Rightarrow> 'a \<Rightarrow> 'a" where
  "or_default x d = (case x of None \<Rightarrow> d | Some v \<Rightarrow> if v = 0 then d else v)"

text \<open>What a service method throws: the channel lookup that finds nothing, a field read on
  \<open>undefined\<close>, and an error of the storage layer with its message.\<close>

datatype error = ChannelNotFound | TypeError | StorageError string

section \<open>ForecastService: demand prediction\<close>

record sample =
  sample_date :: string
  sample_volume :: int
  sample_hour :: nat

record seasonal_factors =
  seasonal :: jsnum
  trend :: jsnum

record external_factors =
  holidayFactor :: jsnum
  weather :: jsnum
  specialEvent :: jsnum

record prediction =
  volume :: jsnum
  confidence :: jsnum
  minVolume :: jsnum
  maxVolume :: jsnum

definition calculateVariance :: "jsnum list \<Rightarrow> jsnum" where
  "calculateVariance values =
     (if length values < 2 then Num 0
      else
        let mean = js_div (js_sum values) (Num (real (length values)));
            squaredDiffs = map (\<lambda>val. js_mul (js_sub val mean) (js_sub val mean)) values
        in js_div (js_sum squaredDiffs) (Num (real (length values))))"

definition calculatePredictedVolume ::
  "sample list \<Rightarrow> seasonal_factors \<Rightarrow> external_factors \<Rightarrow> prediction" where
  "calculatePredictedVolume historicalData seasonalFactors externalFactors =
     (if length historicalData = 0 then
        \<lparr>volume = Num 10, confidence = Num 0.30, minVolume = Num 5, maxVolume = Num 20\<rparr>
      else
        let baseVolume =
              js_div (js_sum (map (\<lambda>d. Num (of_int (sample_volume d))) historicalData))
                     (Num (real (length historicalData)));
            seasonallyAdjusted =
              js_mul (js_mul baseVolume (seasonal seasonalFactors)) (trend seasonalFactors);
            finalVolume =
              js_round
                (js_mul
                   (js_mul (js_mul seasonallyAdjusted (specialEvent externalFactors))
                           (weather externalFactors))
                   (holidayFactor externalFactors));
            variance =
              calculateVariance (map (\<lambda>d. Num (of_int (sample_volume d))) historicalData);
            confidence =
              js_max (Num 0.40) (js_min (Num 0.95) (js_sub (Num 1) (js_div variance baseVolume)));
            variabilityFactor = js_sub (Num 1) confidence;
            minVolume =
              js_max (Num 0) (js_floor (js_mul finalVolume (js_sub (Num 1) variabilityFactor)));
            maxVolume = js_ceil (js_mul finalVolume (js_add (Num 1) variabilityFactor))
        in \<lparr>volume = finalVolume, confidence = confidence,
            minVolume = minVolume, maxVolume = maxVolume\<rparr>)"

text \<open>The specification's reading of the confidence: the arithmetic mean and the
  population variance of the sample volumes, and the range every prediction is to lie in.\<close>

definition mean :: "real list \<Rightarrow> real" where
  "mean xs = sum_list xs / real (length xs)"

definition population_variance :: "real list \<Rightarrow> real" where
  "population_variance xs = (\<Sum>x\<leftarrow>xs. (x - mean xs)\<^sup>2) / real (length xs)"

definition prediction_in_bounds :: "prediction \<Rightarrow> bool" where
  "prediction_in_bounds p =
     (js_le (minVolume p) (volume p) \<and> js_le (volume p) (maxVolume p) \<and>
      js_le (Num 0.30) (confidence p) \<and> js_le (confidence p) (Num 0.95))"

text \<open>Inputs used in the examples below.\<close>

definition ex_sample :: "int \<Rightarrow> sample" where
  "ex_sample v = \<lparr>sample_date = ''2024-03-04'', sample_volume = v, sample_hour = 10\<rparr>"

definition unit_seasonal :: seasonal_factors where
  "unit_seasonal = \<lparr>seasonal = Num 1, trend = Num 1\<rparr>"

definition unit_external :: external_factors where
  "unit_external = \<lparr>holidayFactor = Num 1, weather = Num 1, specialEvent = Num 1\<rparr>"

section \<open>ForecastService: staffing\<close>

text \<open>
  A channel row. A column that may be \<open>null\<close> is an option; times of day are minutes
  since midnight.
\<close>

record channel =
  average_handle_time :: "real option"
  wrap_up_time :: "real option"
  service_level_target :: "real option"
  service_level_threshold :: "real option"
  shrinkage_factor :: "real option"
  min_staffing_level :: "int option"
  preferred_staffing_buffer :: "real option"
  operating_hours_start :: nat
  operating_hours_end :: nat

record staffing =
  required :: jsnum
  optimal :: jsnum
  minimum :: jsnum
  predictedServiceLevel :: jsnum
  predictedWaitTime :: jsnum

definition calculateServiceLevelBuffer :: "jsnum \<Rightarrow> jsnum \<Rightarrow> jsnum" where
  "calculateServiceLevelBuffer serviceLevel targetAnswerTime =
     f64_add (Num 1) (f64_mul (f64_sub serviceLevel (Num 0.5)) (Num 0.5))"

definition predictServiceLevel :: "jsnum \<Rightarrow> jsnum \<Rightarrow> jsnum \<Rightarrow> jsnum" where
  "predictServiceLevel agents workload targetSeconds =
     (let utilization = js_div workload agents
      in if js_ge utilization (Num 1) then Num 0.1
         else js_max (Num 0.1) (js_min (Num 0.99) (js_sub (Num 1) utilization)))"

definition predictAverageWaitTime :: "jsnum \<Rightarrow> jsnum \<Rightarrow> jsnum" where
  "predictAverageWaitTime agents workload =
     (let utilization = js_div workload agents
      in if js_ge utilization (Num 1) then Num 300
         else js_max (Num 0) (js_mul utilization (Num 60)))"

definition calculateRequiredAgents :: "prediction \<Rightarrow> channel \<Rightarrow> string option \<Rightarrow> staffing" where
  "calculateRequiredAgents predictedVolume channel skillId =
     (let volume = volume predictedVolume;
          aht = Num (or_default (average_handle_time channel) 5);
          wrapUpTime = Num (or_default (wrap_up_time channel) 2);
          serviceLevel = Num (or_default (service_level_target channel) 0.80);
          targetAnswerTime = Num (or_default (service_level_threshold channel) 20);
          shrinkage = Num (or_default (shrinkage_factor channel) 0.25);
          totalHandleTime = f64_add aht wrapUpTime;
          workloadErlangs = f64_div (f64_mul volume totalHandleTime) (Num 60);
          adjustedWorkload = f64_div workloadErlangs (f64_sub (Num 1) shrinkage);
          baseAgents = js_ceil adjustedWorkload;
          bufferFactor = calculateServiceLevelBuffer serviceLevel targetAnswerTime;
          requiredAgents =
            js_max (Num (of_int (or_default (min_staffing_level channel) 1)))
                   (js_ceil (f64_mul baseAgents bufferFactor));
          optimalAgents =
            js_ceil (f64_mul requiredAgents
              (f64_add (Num 1) (Num (or_default (preferred_staffing_buffer channel) 0.10))));
          minimumAgents = Num (of_int (or_default (min_staffing_level channel) 1));
          predictedServiceLevel = predictServiceLevel requiredAgents workloadErlangs targetAnswerTime;
          predictedWaitTime = predictAverageWaitTime requiredAgents workloadErlangs
      in \<lparr>required = requiredAgents, optimal = optimalAgents, minimum = minimumAgents,
          predictedServiceLevel = predictedServiceLevel, predictedWaitTime = predictedWaitTime\<rparr>)"

text \<open>The staffing formulas in the specification's words, over the effective parameters
  (each optional column replaced by its default when it is missing or zero), with the sum,
  difference, product and quotient of binary64 numbers.\<close>

definition b64_add :: "real \<Rightarrow> real \<Rightarrow> real" where
  "b64_add x y = binary64 (binary64 x + binary64 y)"

definition b64_sub :: "real \<Rightarrow> real \<Rightarrow> real" where
  "b64_sub x y = binary64 (binary64 x - binary64 y)"

definition b64_mul :: "real \<Rightarrow> real \<Rightarrow> real" where
  "b64_mul x y = binary64 (binary64 x * binary64 y)"

definition b64_div :: "real \<Rightarrow> real \<Rightarrow> real" where
  "b64_div x y = binary64 (binary64 x / binary64 y)"

definition spec_baseAgents :: "real \<Rightarrow> channel \<Rightarrow> real" where
  "spec_baseAgents v channel =
     real_of_int
       \<lceil>b64_div
          (b64_div
             (b64_mul v
                (b64_add (or_default (average_handle_time channel) 5)
                         (or_default (wrap_up_time channel) 2)))
             60)
          (b64_sub 1 (or_default (shrinkage_factor channel) 0.25))\<rceil>"

definition spec_buffer :: "channel \<Rightarrow> real" where
  "spec_buffer channel =
     b64_add 1 (b64_mul (b64_sub (or_default (service_level_target channel) 0.80) 0.5) 0.5)"

definition spec_required :: "real \<Rightarrow> channel \<Rightarrow> real" where
  "spec_required v channel =
     max (real_of_int (or_default (min_staffing_level channel) 1))
         (real_of_int \<lceil>b64_mul (spec_baseAgents v channel) (spec_buffer channel)\<rceil>)"

definition spec_optimal :: "real \<Rightarrow> channel \<Rightarrow> real" where
  "spec_optimal v channel =
     real_of_int
       \<lceil>b64_mul (spec_required v channel)
          (b64_add 1 (or_default (preferred_staffing_buffer channel) 0.10))\<rceil>"

text \<open>The channel of the end-to-end scenario, and a channel whose optional columns are
  all \<open>null\<close>.\<close>

definition ex_channel :: channel where
  "ex_channel =
     \<lparr>average_handle_time = Some 6.5, wrap_up_time = Some 2, service_level_target = Some 0.80,
      service_level_threshold = Some 20, shrinkage_factor = Some 0.25,
      min_staffing_level = Some 2, preferred_staffing_buffer = Some 0.15,
      operating_hours_start = 480, operating_hours_end = 1200\<rparr>"

definition default_channel :: channel where
  "default_channel =
     \<lparr>average_handle_time = None, wrap_up_time = None, service_level_target = None,
      service_level_threshold = None, shrinkage_factor = None,
      min_staffing_level = None, preferred_staffing_buffer = None,
      operating_hours_start = 480, operating_hours_end = 1200\<rparr>"

definition ex_prediction :: "real \<Rightarrow> prediction" where
  "ex_prediction v = \<lparr>volume = Num v, confidence = Num 0.8, minVolume = Num v, maxVolume = Num v\<rparr>"

section \<open>ForecastService: seasonal and external factors\<close>

text \<open>What the service reads of a parsed date: \<open>month()\<close> counts from 0 for January,
  \<open>date()\<close> is the day of the month and \<open>day()\<close> the day of the week from 0 for Sunday.\<close>

record moment_date =
  year :: int
  month :: nat
  date :: nat
  day :: nat

record holiday =
  holiday_month :: nat
  holiday_date :: nat

definition holidays :: "holiday list" where
  "holidays =
     [\<lparr>holiday_month = 0, holiday_date = 1\<rparr>,
      \<lparr>holiday_month = 6, holiday_date = 4\<rparr>,
      \<lparr>holiday_month = 11, holiday_date = 25\<rparr>]"

fun holiday_loop :: "holiday list \<Rightarrow> nat \<Rightarrow> nat \<Rightarrow> jsnum" where
  "holiday_loop [] m d = Num 1.0"
| "holiday_loop (h # rest) m d =
     (if m = holiday_month h \<and> d = holiday_date h then Num 0.3
      else holiday_loop rest m d)"

definition getHolidayFactor :: "moment_date \<Rightarrow> jsnum" where
  "getHolidayFactor momentDate = holiday_loop holidays (month momentDate) (date momentDate)"

definition getExternalFactors :: "moment_date \<Rightarrow> nat \<Rightarrow> external_factors" where
  "getExternalFactors momentDate hour =
     (let holidayFactor = getHolidayFactor momentDate;
          weatherFactor = Num 1.0;
          specialEvent = Num 1.0
      in \<lparr>holidayFactor = holidayFactor, weather = weatherFactor, specialEvent = specialEvent\<rparr>)"

text \<open>Reading a table at an index outside it gives \<open>undefined\<close>, which arithmetic
  turns into NaN.\<close>

definition js_index :: "real list \<Rightarrow> nat \<Rightarrow> jsnum" where
  "js_index table i = (if i < length table then Num (table ! i) else NaN)"

definition dayOfWeekFactors :: "real list" where
  "dayOfWeekFactors = [0.6, 1.1, 1.0, 1.0, 1.2, 1.1, 0.7]"

definition hourFactors :: "real list" where
  "hourFactors =
     [0.1, 0.1, 0.1, 0.1, 0.2, 0.3, 0.5, 0.7,
      1.0, 1.2, 1.1, 1.0, 0.9, 1.1, 1.2, 1.1,
      1.0, 0.8, 0.6, 0.4, 0.3, 0.2, 0.1, 0.1]"

definition monthlyFactors :: "real list" where
  "monthlyFactors = [1.1, 1.0, 1.0, 1.0, 0.9, 0.9, 0.8, 0.8, 1.0, 1.1, 1.2, 1.3]"

definition getSeasonalFactors :: "moment_date \<Rightarrow> nat \<Rightarrow> seasonal_factors" where
  "getSeasonalFactors momentDate hour =
     (let seasonal = js_index dayOfWeekFactors (day momentDate);
          hourlyFactor = js_index hourFactors hour;
          monthlyFactor = js_index monthlyFactors (month momentDate);
          trend = Num 1.02
      in \<lparr>seasonal = js_mul (js_mul seasonal hourlyFactor) monthlyFactor, trend = trend\<rparr>)"

definition isOperatingHour :: "nat \<Rightarrow> channel \<Rightarrow> bool" where
  "isOperatingHour hour channel =
     (let startHour = operating_hours_start channel div 60;
          endHour = operating_hours_end channel div 60
      in hour \<ge> startHour \<and> hour < endHour)"

section \<open>ScheduleOptimizer: shifts, breaks and assignment\<close>

text \<open>
  A time of day, written \<open>HH:mm\<close> in the source, is the number of minutes since midnight
  (\<open>08:00\<close> is 480), and a calendar date is a day number. Durations in the constraint
  set are whole minutes. A constraint that is \<open>undefined\<close> is \<open>None\<close>; a comparison with
  it is false.
\<close>

record constraints =
  max_consecutive_days :: "real option"
  min_days_off_per_week :: "real option"
  max_hours_per_day :: "real option"
  max_hours_per_week :: "real option"
  min_break_duration :: "int option"
  lunch_break_duration :: "int option"
  min_time_between_shifts :: "real option"

definition getDefaultConstraints :: constraints where
  "getDefaultConstraints =
     \<lparr>max_consecutive_days = Some 5, min_days_off_per_week = Some 2,
      max_hours_per_day = Some 8, max_hours_per_week = Some 40,
      min_break_duration = Some 30, lunch_break_duration = Some 60,
      min_time_between_shifts = Some 8\<rparr>"

definition gt_undefined :: "real \<Rightarrow> real option \<Rightarrow> bool" where
  "gt_undefined x limit = (case limit of None \<Rightarrow> False | Some l \<Rightarrow> x > l)"

definition lt_undefined :: "real \<Rightarrow> real option \<Rightarrow> bool" where
  "lt_undefined x limit = (case limit of None \<Rightarrow> False | Some l \<Rightarrow> x < l)"

text \<open>\<open>moment('2000-01-01T' + startTime)\<close>, moved by a number of minutes and printed with
  \<open>format('HH:mm')\<close>: the seconds are dropped and the day is forgotten.\<close>

definition format_HHmm :: "real \<Rightarrow> int" where
  "format_HHmm minutes = \<lfloor>minutes\<rfloor> mod 1440"

definition calculateShiftHours :: "int \<Rightarrow> int \<Rightarrow> real" where
  "calculateShiftHours startTime endTime = real_of_int (endTime - startTime) / 60"

text \<open>The start is taken on 2 January and the end on 1 January.\<close>

definition calculateTimeBetween :: "int \<Rightarrow> int \<Rightarrow> real" where
  "calculateTimeBetween endTime startTime = real_of_int (1440 + startTime - endTime) / 60"

record break_window =
  break_start_time :: int
  break_end_time :: int
  break_type :: string
  break_duration :: int

definition generateBreaks :: "int \<Rightarrow> int \<Rightarrow> constraints \<Rightarrow> break_window list" where
  "generateBreaks startTime endTime constraints =
     (let shiftHours = calculateShiftHours startTime endTime
      in if shiftHours \<ge> 4 then
           let breakDuration = or_default (min_break_duration constraints) 15;
               numBreaks = \<lfloor>shiftHours / 4\<rfloor>
           in map (\<lambda>i.
                 let breakTime = format_HHmm (real_of_int startTime + real_of_int (i * 4) * 60)
                 in \<lparr>break_start_time = breakTime,
                     break_end_time =
                       format_HHmm (real_of_int breakTime + real_of_int breakDuration),
                     break_type = ''break'', break_duration = breakDuration\<rparr>)
                [1..numBreaks]
         else [])"

definition generateLunchBreak :: "int \<Rightarrow> int \<Rightarrow> constraints \<Rightarrow> break_window option" where
  "generateLunchBreak startTime endTime constraints =
     (let shiftHours = calculateShiftHours startTime endTime
      in if shiftHours \<ge> 6 then
           let lunchDuration = or_default (lunch_break_duration constraints) 60;
               midShift = format_HHmm (real_of_int startTime + shiftHours / 2 * 60)
           in Some \<lparr>break_start_time = midShift,
                    break_end_time =
                      format_HHmm (real_of_int midShift + real_of_int lunchDuration),
                    break_type = ''lunch'', break_duration = lunchDuration\<rparr>
         else None)"

text \<open>The specification's reading of a window inside a shift, and of a window centred at the shift
  midpoint.\<close>

definition window_inside_shift :: "int \<Rightarrow> int \<Rightarrow> break_window \<Rightarrow> bool" where
  "window_inside_shift startTime endTime w =
     (startTime \<le> break_start_time w \<and> break_start_time w \<le> break_end_time w \<and>
      break_end_time w \<le> endTime)"

definition window_centered :: "int \<Rightarrow> int \<Rightarrow> break_window \<Rightarrow> bool" where
  "window_centered startTime endTime w =
     (break_start_time w + break_end_time w = startTime + endTime)"

record shift_pattern =
  pattern_start :: int
  pattern_end :: int
  pattern_type :: string
  priority :: nat

record agent =
  agent_id :: string
  customer_satisfaction_score :: "real option"
  first_call_resolution_rate :: "real option"
  can_work_weekends :: bool
  overtime_eligible :: bool

record workload =
  hoursAssigned :: real
  shiftsAssigned :: nat
  lastShiftEnd :: "int option"

record assignment =
  agentId :: string
  startTime :: int
  endTime :: int
  shiftType :: string
  primaryChannelId :: "string option"
  secondaryChannels :: "string list"
  requiredSkills :: "string list"
  expectedVolume :: int

definition suitability :: "agent \<Rightarrow> real" where
  "suitability a =
     or_default (customer_satisfaction_score a) 3 +
     or_default (first_call_resolution_rate a) 0.5 +
     (if can_work_weekends a then 0.2 else 0) +
     (if overtime_eligible a then 0.1 else 0)"

text \<open>\<open>Array.prototype.sort\<close> is stable; the comparator \<open>bScore - aScore\<close> orders by
  falling score.\<close>

definition sortAgentsBySuitability :: "agent list \<Rightarrow> agent list" where
  "sortAgentsBySuitability agents = sort_key (\<lambda>a. - suitability a) agents"

text \<open>The body of the filter of \<open>findSuitableAgents\<close>, for the workload entry of one agent.\<close>

definition suitable :: "workload \<Rightarrow> shift_pattern \<Rightarrow> constraints \<Rightarrow> bool" where
  "suitable w pattern constraints =
     (let shiftHours = calculateShiftHours (pattern_start pattern) (pattern_end pattern)
      in if gt_undefined (hoursAssigned w + shiftHours) (max_hours_per_week constraints)
         then False
         else
           (case lastShiftEnd w of
              Some lastEnd \<Rightarrow>
                let timeBetween = calculateTimeBetween lastEnd (pattern_start pattern)
                in if lt_undefined timeBetween (min_time_between_shifts constraints)
                   then False else True
            | None \<Rightarrow> True))"

text \<open>Reading a field of the entry of an agent the workload map does not hold raises a
  \<open>TypeError\<close>.\<close>

fun findSuitableAgents ::
  "agent list \<Rightarrow> shift_pattern \<Rightarrow> (string \<rightharpoonup> workload) \<Rightarrow> constraints \<Rightarrow> error + agent list"
where
  "findSuitableAgents [] pattern agentWorkload constraints = Inr []"
| "findSuitableAgents (a # agents) pattern agentWorkload constraints =
     (case agentWorkload (agent_id a) of
        None \<Rightarrow> Inl TypeError
      | Some w \<Rightarrow>
          (case findSuitableAgents agents pattern agentWorkload constraints of
             Inl e \<Rightarrow> Inl e
           | Inr rest \<Rightarrow> Inr (if suitable w pattern constraints then a # rest else rest)))"

definition selectPrimaryChannel :: "agent \<Rightarrow> shift_pattern \<Rightarrow> string option" where
  "selectPrimaryChannel a pattern = None"

definition selectSecondaryChannels :: "agent \<Rightarrow> shift_pattern \<Rightarrow> string list" where
  "selectSecondaryChannels a pattern = []"

definition getRequiredSkills :: "agent \<Rightarrow> shift_pattern \<Rightarrow> string list" where
  "getRequiredSkills a pattern = []"

definition calculateExpectedVolume :: "shift_pattern \<Rightarrow> int" where
  "calculateExpectedVolume pattern = 0"

definition initial_workload :: "agent list \<Rightarrow> (string \<rightharpoonup> workload)" where
  "initial_workload availableAgents =
     foldl (\<lambda>m a. m(agent_id a \<mapsto> \<lparr>hoursAssigned = 0, shiftsAssigned = 0, lastShiftEnd = None\<rparr>))
       Map.empty availableAgents"

text \<open>The assignment pushed for the selected agent, and the update of the agent's
  workload entry.\<close>

definition new_assignment :: "agent \<Rightarrow> shift_pattern \<Rightarrow> assignment" where
  "new_assignment selectedAgent pattern =
     (let shiftHours = calculateShiftHours (pattern_start pattern) (pattern_end pattern)
      in \<lparr>agentId = agent_id selectedAgent,
          startTime = pattern_start pattern,
          endTime = pattern_end pattern,
          shiftType = (if shiftHours > 8 then ''overtime'' else ''regular''),
          primaryChannelId = selectPrimaryChannel selectedAgent pattern,
          secondaryChannels = selectSecondaryChannels selectedAgent pattern,
          requiredSkills = getRequiredSkills selectedAgent pattern,
          expectedVolume = calculateExpectedVolume pattern\<rparr>)"

definition update_workload :: "workload \<Rightarrow> shift_pattern \<Rightarrow> workload" where
  "update_workload w pattern =
     (let shiftHours = calculateShiftHours (pattern_start pattern) (pattern_end pattern)
      in w\<lparr>hoursAssigned := hoursAssigned w + shiftHours,
           shiftsAssigned := shiftsAssigned w + 1,
           lastShiftEnd := Some (pattern_end pattern)\<rparr>)"

text \<open>The loop over the patterns, with the workload map and the assignments made so far.\<close>

fun assign_loop ::
  "shift_pattern list \<Rightarrow> agent list \<Rightarrow> constraints \<Rightarrow> (string \<rightharpoonup> workload) \<Rightarrow>
   assignment list \<Rightarrow> error + assignment list"
where
  "assign_loop [] sortedAgents constraints agentWorkload assignments = Inr assignments"
| "assign_loop (pattern # patterns) sortedAgents constraints agentWorkload assignments =
     (case findSuitableAgents sortedAgents pattern agentWorkload constraints of
        Inl e \<Rightarrow> Inl e
      | Inr [] \<Rightarrow> assign_loop patterns sortedAgents constraints agentWorkload assignments
      | Inr (selectedAgent # others) \<Rightarrow>
          (case agentWorkload (agent_id selectedAgent) of
             None \<Rightarrow> Inl TypeError
           | Some w \<Rightarrow>
               assign_loop patterns sortedAgents constraints
                 (agentWorkload(agent_id selectedAgent \<mapsto> update_workload w pattern))
                 (assignments @ [new_assignment selectedAgent pattern])))"

definition assignAgentsToShifts ::
  "shift_pattern list \<Rightarrow> agent list \<Rightarrow> constraints \<Rightarrow> error + assignment list" where
  "assignAgentsToShifts shiftPatterns availableAgents constraints =
     (let agentWorkload = initial_workload availableAgents;
          sortedAgents = sortAgentsBySuitability availableAgents
      in assign_loop shiftPatterns sortedAgents constraints agentWorkload [])"

text \<open>
  What the filter of \<open>findSuitableAgents\<close> checked when each assignment of a list was
  made, given the assignments before it: the hours of the agent so far plus the hours of
  the shift do not exceed \<open>max_hours_per_week\<close>, and the time from the end of the agent's
  last shift to the start of this one on the following day is not below
  \<open>min_time_between_shifts\<close>.
\<close>

definition assigned_hours :: "string \<Rightarrow> assignment list \<Rightarrow> real" where
  "assigned_hours i assignments =
     (\<Sum>a\<leftarrow>filter (\<lambda>a. agentId a = i) assignments. calculateShiftHours (startTime a) (endTime a))"

definition last_shift_end :: "string \<Rightarrow> assignment list \<Rightarrow> int option" where
  "last_shift_end i assignments =
     (let own = filter (\<lambda>a. agentId a = i) assignments
      in if own = [] then None else Some (endTime (last own)))"

fun respects_limits :: "constraints \<Rightarrow> assignment list \<Rightarrow> assignment list \<Rightarrow> bool" where
  "respects_limits constraints earlier [] = True"
| "respects_limits constraints earlier (a # later) =
     (\<not> gt_undefined
          (assigned_hours (agentId a) earlier + calculateShiftHours (startTime a) (endTime a))
          (max_hours_per_week constraints) \<and>
      (case last_shift_end (agentId a) earlier of
         None \<Rightarrow> True
       | Some lastEnd \<Rightarrow>
           \<not> lt_undefined (calculateTimeBetween lastEnd (startTime a))
               (min_time_between_shifts constraints)) \<and>
      respects_limits constraints (earlier @ [a]) later)"

text \<open>The workload map agrees with the assignments made so far.\<close>

definition workload_tracks :: "(string \<rightharpoonup> workload) \<Rightarrow> assignment list \<Rightarrow> bool" where
  "workload_tracks agentWorkload assignments =
     (\<forall>i w. agentWorkload i = Some w \<longrightarrow>
        hoursAssigned w = assigned_hours i assignments \<and>
        lastShiftEnd w = last_shift_end i assignments)"

section \<open>ScheduleOptimizer: shift patterns and daily shifts\<close>

text \<open>The columns the optimizer reads of a stored forecast row; the hour of a stored row
  lies between 0 and 23.\<close>

record forecast_row =
  row_channel_id :: string
  row_forecast_date :: nat
  row_forecast_hour :: nat
  row_required_agents :: "int option"
  row_predicted_volume :: "int option"

record channel_requirement =
  channel_agents :: int
  channel_volume :: int

record hourly_requirement =
  totalAgents :: int
  channels :: "string \<rightharpoonup> channel_requirement"
  totalVolume :: int

definition add_requirement ::
  "(nat \<rightharpoonup> hourly_requirement) \<Rightarrow> forecast_row \<Rightarrow> (nat \<rightharpoonup> hourly_requirement)" where
  "add_requirement requirements forecast =
     (let hour = row_forecast_hour forecast;
          r = (case requirements hour of
                 None \<Rightarrow> \<lparr>totalAgents = 0, channels = Map.empty, totalVolume = 0\<rparr>
               | Some r \<Rightarrow> r)
      in requirements(hour \<mapsto>
           \<lparr>totalAgents = totalAgents r + or_default (row_required_agents forecast) 0,
            channels = (channels r)(row_channel_id forecast \<mapsto>
              \<lparr>channel_agents = or_default (row_required_agents forecast) 0,
               channel_volume = or_default (row_predicted_volume forecast) 0\<rparr>),
            totalVolume = totalVolume r + or_default (row_predicted_volume forecast) 0\<rparr>))"

definition calculateHourlyRequirements :: "forecast_row list \<Rightarrow> (nat \<rightharpoonup> hourly_requirement)" where
  "calculateHourlyRequirements forecasts = foldl add_requirement Map.empty forecasts"

text \<open>\<open>Object.keys\<close> lists the hours in rising order; the sort is stable and orders by
  falling \<open>totalAgents\<close>; the first \<open>ceil(0.3 * n)\<close> hours are the peak hours.\<close>

definition findPeakHours :: "(nat \<rightharpoonup> hourly_requirement) \<Rightarrow> nat list" where
  "findPeakHours hourlyRequirements =
     (let hours = filter (\<lambda>h. hourlyRequirements h \<noteq> None) [0..<24]
      in take (nat \<lceil>real (length hours) * 0.3\<rceil>)
           (sort_key (\<lambda>h. case hourlyRequirements h of
                              None \<Rightarrow> 0 | Some r \<Rightarrow> - totalAgents r) hours))"

definition calculateShiftPriority :: "shift_pattern \<Rightarrow> nat list \<Rightarrow> nat" where
  "calculateShiftPriority pattern peakHours =
     (let shiftStart = pattern_start pattern div 60;
          shiftEnd = pattern_end pattern div 60
      in length (filter (\<lambda>hour. int hour \<ge> shiftStart \<and> int hour < shiftEnd) peakHours))"

definition standardShifts :: "shift_pattern list" where
  "standardShifts =
     [\<lparr>pattern_start = 480, pattern_end = 960, pattern_type = ''morning'', priority = 0\<rparr>,
      \<lparr>pattern_start = 540, pattern_end = 1020, pattern_type = ''day'', priority = 0\<rparr>,
      \<lparr>pattern_start = 600, pattern_end = 1080, pattern_type = ''day'', priority = 0\<rparr>,
      \<lparr>pattern_start = 720, pattern_end = 1200, pattern_type = ''afternoon'', priority = 0\<rparr>,
      \<lparr>pattern_start = 840, pattern_end = 1320, pattern_type = ''evening'', priority = 0\<rparr>]"

definition partTimeShifts :: "shift_pattern list" where
  "partTimeShifts =
     [\<lparr>pattern_start = 480, pattern_end = 720, pattern_type = ''part_time'', priority = 0\<rparr>,
      \<lparr>pattern_start = 780, pattern_end = 1020, pattern_type = ''part_time'', priority = 0\<rparr>,
      \<lparr>pattern_start = 1080, pattern_end = 1320, pattern_type = ''part_time'', priority = 0\<rparr>]"

definition generateShiftPatterns ::
  "(nat \<rightharpoonup> hourly_requirement) \<Rightarrow> constraints \<Rightarrow> shift_pattern list" where
  "generateShiftPatterns hourlyRequirements constraints =
     (let peakHours = findPeakHours hourlyRequirements;
          patterns = standardShifts @ partTimeShifts
      in sort_key (\<lambda>p. - int (priority p))
           (map (\<lambda>pattern. pattern\<lparr>priority := calculateShiftPriority pattern peakHours\<rparr>)
              patterns))"

datatype timeoff_status =
  Draft | Submitted | PendingApproval | Approved | Rejected | Cancelled | Completed

record timeoff =
  timeoff_agent_id :: string
  timeoff_start_date :: nat
  timeoff_end_date :: nat
  timeoff_status :: timeoff_status

record shift =
  shift_agent_id :: string
  shift_date :: nat
  start_time :: int
  end_time :: int
  primary_channel_id :: "string option"
  secondary_channels :: "string list"
  required_skills :: "string list"
  expected_volume :: int
  shift_type :: string
  breaks :: "break_window list"
  lunch_break :: "break_window option"
  hourly_rate :: "real option"
  total_cost :: "real option"
  schedule_id :: "string option"

text \<open>The time-off requests \<open>generateOptimizedSchedule\<close> passes on for one day.\<close>

definition timeOffRequests_on :: "nat \<Rightarrow> timeoff list \<Rightarrow> timeoff list" where
  "timeOffRequests_on dateString timeOffRequests =
     filter (\<lambda>t. dateString \<ge> timeoff_start_date t \<and> dateString \<le> timeoff_end_date t)
       timeOffRequests"

definition generateDailyShifts ::
  "nat \<Rightarrow> agent list \<Rightarrow> forecast_row list \<Rightarrow> timeoff list \<Rightarrow> constraints \<Rightarrow> error + shift list"
where
  "generateDailyShifts dateString agents forecasts timeOffRequests constraints =
     (let unavailableAgents =
            map timeoff_agent_id (filter (\<lambda>t. timeoff_status t = Approved) timeOffRequests);
          availableAgents = filter (\<lambda>a. agent_id a \<notin> set unavailableAgents) agents
      in if length availableAgents = 0 then Inr []
         else
           let hourlyRequirements = calculateHourlyRequirements forecasts;
               shiftPatterns = generateShiftPatterns hourlyRequirements constraints
           in case assignAgentsToShifts shiftPatterns availableAgents constraints of
                Inl e \<Rightarrow> Inl e
              | Inr assignments \<Rightarrow>
                  Inr (map (\<lambda>a.
                         \<lparr>shift_agent_id = agentId a, shift_date = dateString,
                          start_time = startTime a, end_time = endTime a,
                          primary_channel_id = primaryChannelId a,
                          secondary_channels = secondaryChannels a,
                          required_skills = requiredSkills a,
                          expected_volume = expectedVolume a,
                          shift_type = (if shiftType a = [] then ''regular'' else shiftType a),
                          breaks = generateBreaks (startTime a) (endTime a) constraints,
                          lunch_break = generateLunchBreak (startTime a) (endTime a) constraints,
                          hourly_rate = None, total_cost = None, schedule_id = None\<rparr>)
                       assignments))"

section \<open>ScheduleOptimizer: schedule metrics\<close>

record schedule_metrics =
  serviceLevel :: real
  coverage :: real
  totalCost :: real
  efficiency :: real

definition calculateScheduleMetrics :: "'schedule \<Rightarrow> shift list \<Rightarrow> schedule_metrics" where
  "calculateScheduleMetrics schedule shifts =
     (let totalCost = foldl (\<lambda>sum s. sum + or_default (total_cost s) 0) 0 shifts
      in \<lparr>serviceLevel = 0.85, coverage = 0.90, totalCost = totalCost, efficiency = 0.88\<rparr>)"

text \<open>Inputs used in the examples below.\<close>

definition ex_agent :: "string \<Rightarrow> agent" where
  "ex_agent i =
     \<lparr>agent_id = i, customer_satisfaction_score = Some 4, first_call_resolution_rate = Some 0.8,
      can_work_weekends = True, overtime_eligible = False\<rparr>"

definition ex_shift :: "real option \<Rightarrow> shift" where
  "ex_shift cost =
     \<lparr>shift_agent_id = ''a1'', shift_date = 0, start_time = 480, end_time = 960,
      primary_channel_id = None, secondary_channels = [], required_skills = [],
      expected_volume = 0, shift_type = ''regular'', breaks = [], lunch_break = None,
      hourly_rate = None, total_cost = cost, schedule_id = Some ''s1''\<rparr>"

section \<open>ScheduleOptimizer: schedule generation\<close>

record optimization_preferences =
  prioritize_agent_preferences :: bool
  minimize_overtime :: bool
  balance_workload :: bool
  optimize_for_service_level :: bool
  allow_split_shifts :: bool

definition getDefaultOptimizationPreferences :: optimization_preferences where
  "getDefaultOptimizationPreferences =
     \<lparr>prioritize_agent_preferences = True, minimize_overtime = True, balance_workload = True,
      optimize_for_service_level = True, allow_split_shifts = False\<rparr>"

text \<open>The constraints and preferences of a request name some of the keys; \<open>None\<close> is a key
  the request does not name. The spread \<open>{...defaults, ...given}\<close> keeps the default of a
  key that is not named.\<close>

record constraint_overrides =
  given_max_consecutive_days :: "real option option"
  given_min_days_off_per_week :: "real option option"
  given_max_hours_per_day :: "real option option"
  given_max_hours_per_week :: "real option option"
  given_min_break_duration :: "int option option"
  given_lunch_break_duration :: "int option option"
  given_min_time_between_shifts :: "real option option"

record preference_overrides =
  given_prioritize_agent_preferences :: "bool option"
  given_minimize_overtime :: "bool option"
  given_balance_workload :: "bool option"
  given_optimize_for_service_level :: "bool option"
  given_allow_split_shifts :: "bool option"

definition spread :: "'a \<Rightarrow> 'a option \<Rightarrow> 'a" where
  "spread dflt given = (case given of None \<Rightarrow> dflt | Some v \<Rightarrow> v)"

definition merge_constraints :: "constraints \<Rightarrow> constraint_overrides \<Rightarrow> constraints" where
  "merge_constraints d g =
     \<lparr>max_consecutive_days = spread (max_consecutive_days d) (given_max_consecutive_days g),
      min_days_off_per_week = spread (min_days_off_per_week d) (given_min_days_off_per_week g),
      max_hours_per_day = spread (max_hours_per_day d) (given_max_hours_per_day g),
      max_hours_per_week = spread (max_hours_per_week d) (given_max_hours_per_week g),
      min_break_duration = spread (min_break_duration d) (given_min_break_duration g),
      lunch_break_duration = spread (lunch_break_duration d) (given_lunch_break_duration g),
      min_time_between_shifts =
        spread (min_time_between_shifts d) (given_min_time_between_shifts g)\<rparr>"

definition merge_preferences ::
  "optimization_preferences \<Rightarrow> preference_overrides \<Rightarrow> optimization_preferences" where
  "merge_preferences d g =
     \<lparr>prioritize_agent_preferences =
        spread (prioritize_agent_preferences d) (given_prioritize_agent_preferences g),
      minimize_overtime = spread (minimize_overtime d) (given_minimize_overtime g),
      balance_workload = spread (balance_workload d) (given_balance_workload g),
      optimize_for_service_level =
        spread (optimize_for_service_level d) (given_optimize_for_service_level g),
      allow_split_shifts = spread (allow_split_shifts d) (given_allow_split_shifts g)\<rparr>"

record schedule_data =
  requested_type :: string
  startDate :: nat
  endDate :: nat
  agentIds :: "string list"
  channelIds :: "string list"
  requested_constraints :: constraint_overrides
  optimizationPreferences :: preference_overrides

record schedule =
  schedule_ident :: string
  schedule_type :: string
  start_date :: nat
  end_date :: nat
  schedule_constraints :: constraints
  optimization_preferences :: optimization_preferences
  schedule_status :: string
  service_level_achieved :: "real option"
  coverage_percentage :: "real option"
  total_labor_cost :: "real option"

text \<open>The storage collaborator of the optimizer, over a storage state \<open>'db\<close>. A query
  returns its rows or throws (\<open>Inl\<close>); a write returns the stored instance and the new
  state, or throws.\<close>

record 'db schedule_storage =
  Schedule_create :: "'db \<Rightarrow> schedule \<Rightarrow> (string + schedule) \<times> 'db"
  Agent_findAll :: "'db \<Rightarrow> string list \<Rightarrow> string + agent list"
  Forecast_findAll :: "'db \<Rightarrow> string list \<Rightarrow> nat \<Rightarrow> nat \<Rightarrow> string + forecast_row list"
  TimeOff_findAll :: "'db \<Rightarrow> string list \<Rightarrow> nat \<Rightarrow> nat \<Rightarrow> string + timeoff list"
  Shift_insert :: "'db \<Rightarrow> shift \<Rightarrow> (string + shift) \<times> 'db"
  Schedule_save :: "'db \<Rightarrow> schedule \<Rightarrow> string option \<times> 'db"

text \<open>\<open>Shift.create\<close> with the \<open>beforeValidate\<close> hook of the Shift model: an end time that
  is not after the start time throws, and a shift with an hourly rate gets its total cost.\<close>

definition getDurationInHours :: "shift \<Rightarrow> real" where
  "getDurationInHours s =
     (let start = start_time s;
          end' = (if end_time s < start_time s then end_time s + 1440 else end_time s)
      in real_of_int (end' - start) / 60)"

definition Shift_create ::
  "'db schedule_storage \<Rightarrow> 'db \<Rightarrow> shift \<Rightarrow> (error + shift) \<times> 'db" where
  "Shift_create storage db values =
     (if end_time values \<le> start_time values
      then (Inl (StorageError ''End time must be after start time''), db)
      else
        let s = (case hourly_rate values of
                   None \<Rightarrow> values
                 | Some rate \<Rightarrow>
                     if rate = 0 then values
                     else values\<lparr>total_cost := Some (getDurationInHours values * rate)\<rparr>)
        in case Shift_insert storage db s of
             (Inl e, db') \<Rightarrow> (Inl (StorageError e), db')
           | (Inr saved, db') \<Rightarrow> (Inr saved, db'))"

definition balanceWorkload :: "shift list \<Rightarrow> shift list" where
  "balanceWorkload shifts = shifts"

definition minimizeOvertime :: "shift list \<Rightarrow> shift list" where
  "minimizeOvertime shifts = shifts"

definition optimizeForAgentPreferences :: "shift list \<Rightarrow> shift list" where
  "optimizeForAgentPreferences shifts = shifts"

definition optimizeForServiceLevel :: "shift list \<Rightarrow> shift list" where
  "optimizeForServiceLevel shifts = shifts"

definition optimizeSchedule :: "shift list \<Rightarrow> schedule \<Rightarrow> shift list" where
  "optimizeSchedule shifts schedule =
     (let preferences = optimization_preferences schedule;
          s1 = (if balance_workload preferences then balanceWorkload shifts else shifts);
          s2 = (if minimize_overtime preferences then minimizeOvertime s1 else s1);
          s3 = (if prioritize_agent_preferences preferences
                then optimizeForAgentPreferences s2 else s2)
      in if optimize_for_service_level preferences then optimizeForServiceLevel s3 else s3)"

text \<open>The loop over the days of the period, and the loop that saves the shifts.\<close>

fun daily_loop ::
  "nat list \<Rightarrow> agent list \<Rightarrow> forecast_row list \<Rightarrow> timeoff list \<Rightarrow> constraints \<Rightarrow>
   shift list \<Rightarrow> error + shift list"
where
  "daily_loop [] agents forecasts timeOffRequests constraints allShifts = Inr allShifts"
| "daily_loop (dateString # dates) agents forecasts timeOffRequests constraints allShifts =
     (case generateDailyShifts dateString agents
             (filter (\<lambda>f. row_forecast_date f = dateString) forecasts)
             (timeOffRequests_on dateString timeOffRequests) constraints of
        Inl e \<Rightarrow> Inl e
      | Inr dailyShifts \<Rightarrow>
          daily_loop dates agents forecasts timeOffRequests constraints
            (allShifts @ dailyShifts))"

fun save_shifts ::
  "'db schedule_storage \<Rightarrow> string \<Rightarrow> shift list \<Rightarrow> shift list \<Rightarrow> 'db \<Rightarrow>
   (error + shift list) \<times> 'db"
where
  "save_shifts storage ident [] savedShifts db = (Inr savedShifts, db)"
| "save_shifts storage ident (shiftData # rest) savedShifts db =
     (case Shift_create storage db (shiftData\<lparr>schedule_id := Some ident\<rparr>) of
        (Inl e, db') \<Rightarrow> (Inl e, db')
      | (Inr saved, db') \<Rightarrow> save_shifts storage ident rest (savedShifts @ [saved]) db')"

definition generateOptimizedSchedule ::
  "'db schedule_storage \<Rightarrow> 'db \<Rightarrow> schedule_data \<Rightarrow>
   (error + schedule \<times> shift list \<times> schedule_metrics) \<times> 'db" where
  "generateOptimizedSchedule storage db scheduleData =
     (case Schedule_create storage db
             \<lparr>schedule_ident = [],
              schedule_type = requested_type scheduleData,
              start_date = startDate scheduleData,
              end_date = endDate scheduleData,
              schedule_constraints =
                merge_constraints getDefaultConstraints (requested_constraints scheduleData),
              optimization_preferences =
                merge_preferences getDefaultOptimizationPreferences
                  (optimizationPreferences scheduleData),
              schedule_status = ''draft'',
              service_level_achieved = None, coverage_percentage = None,
              total_labor_cost = None\<rparr> of
        (Inl e, db1) \<Rightarrow> (Inl (StorageError e), db1)
      | (Inr schedule, db1) \<Rightarrow>
          (case Agent_findAll storage db1 (agentIds scheduleData) of
             Inl e \<Rightarrow> (Inl (StorageError e), db1)
           | Inr agents \<Rightarrow>
          (case Forecast_findAll storage db1 (channelIds scheduleData)
                  (startDate scheduleData) (endDate scheduleData) of
             Inl e \<Rightarrow> (Inl (StorageError e), db1)
           | Inr forecasts \<Rightarrow>
          (case TimeOff_findAll storage db1 (agentIds scheduleData)
                  (startDate scheduleData) (endDate scheduleData) of
             Inl e \<Rightarrow> (Inl (StorageError e), db1)
           | Inr timeOffRequests \<Rightarrow>
          (case daily_loop [startDate scheduleData..<Suc (endDate scheduleData)] agents
                  forecasts timeOffRequests (schedule_constraints schedule) [] of
             Inl e \<Rightarrow> (Inl e, db1)
           | Inr allShifts \<Rightarrow>
          (case save_shifts storage (schedule_ident schedule)
                  (optimizeSchedule allShifts schedule) [] db1 of
             (Inl e, db2) \<Rightarrow> (Inl e, db2)
           | (Inr savedShifts, db2) \<Rightarrow>
               let metrics = calculateScheduleMetrics schedule savedShifts;
                   updated =
                     schedule\<lparr>service_level_achieved := Some (serviceLevel metrics),
                              coverage_percentage := Some (coverage metrics),
                              total_labor_cost := Some (totalCost metrics),
                              schedule_status := ''generated''\<rparr>
               in case Schedule_save storage db2 updated of
                    (Some e, db3) \<Rightarrow> (Inl (StorageError e), db3)
                  | (None, db3) \<Rightarrow> (Inr (updated, savedShifts, metrics), db3)))))))"

text \<open>Inputs used in the examples below: a storage that accepts every write and holds one
  agent, no forecast and no time off, and a request for two days.\<close>

definition ex_storage :: "shift list schedule_storage" where
  "ex_storage =
     \<lparr>Schedule_create = (\<lambda>db s. (Inr (s\<lparr>schedule_ident := ''s1''\<rparr>), db)),
      Agent_findAll = (\<lambda>db ids. Inr [ex_agent ''a1'']),
      Forecast_findAll = (\<lambda>db ids d1 d2. Inr []),
      TimeOff_findAll = (\<lambda>db ids d1 d2. Inr []),
      Shift_insert = (\<lambda>db s. (Inr s, db @ [s])),
      Schedule_save = (\<lambda>db s. (None, db))\<rparr>"

definition no_overrides :: constraint_overrides where
  "no_overrides =
     \<lparr>given_max_consecutive_days = None, given_min_days_off_per_week = None,
      given_max_hours_per_day = None, given_max_hours_per_week = None,
      given_min_break_duration = None, given_lunch_break_duration = None,
      given_min_time_between_shifts = None\<rparr>"

definition no_preferences :: preference_overrides where
  "no_preferences =
     \<lparr>given_prioritize_agent_preferences = None, given_minimize_overtime = None,
      given_balance_workload = None, given_optimize_for_service_level = None,
      given_allow_split_shifts = None\<rparr>"

definition ex_schedule_data :: schedule_data where
  "ex_schedule_data =
     \<lparr>requested_type = ''daily'', startDate = 0, endDate = 1, agentIds = [], channelIds = [],
      requested_constraints = no_overrides, optimizationPreferences = no_preferences\<rparr>"

section \<open>ForecastService: hourly forecast generation\<close>

text \<open>The object handed to \<open>Forecast.create\<close>; a stored row and the instance that
  \<open>create\<close> returns have the same fields, \<open>channel_id\<close> and \<open>skill_id\<close> being the columns of
  the two foreign keys, \<open>None\<close> for NULL.\<close>

record forecast_values =
  channel_id :: "string option"
  skill_id :: "string option"
  forecast_date :: moment_date
  forecast_hour :: nat
  forecast_type :: string
  forecast_method :: string
  predicted_volume :: jsnum
  confidence_level :: jsnum
  min_volume :: jsnum
  max_volume :: jsnum
  required_agents :: jsnum
  optimal_agents :: jsnum
  minimum_agents :: jsnum
  predicted_service_level :: jsnum
  predicted_average_wait_time :: jsnum
  seasonal_factor :: jsnum
  trend_factor :: jsnum
  special_event_factor :: jsnum
  weather_factor :: jsnum
  external_factors :: external_factors
  status :: string
  model_version :: string
  created_by :: string

text \<open>The storage collaborator. \<open>findChannel\<close> is \<open>Channel.findByPk\<close> and \<open>findHistory\<close> is
  the query of \<open>getHistoricalData\<close>, returning the mapped samples; \<open>Inl\<close> is a query that
  throws. \<open>rejectCreate\<close> says why the storage refuses to write a row (a validation, a
  column type, a lost connection); the unique index is modelled apart, below. The stored
  rows are the state the generation threads through; the rows it writes carry no
  \<open>actual_volume\<close>, which the query of \<open>getHistoricalData\<close> requires, so they are no
  historical data.\<close>

record database =
  findChannel :: "string \<Rightarrow> string + channel option"
  findHistory :: "string \<Rightarrow> nat \<Rightarrow> string option \<Rightarrow> string + sample list"
  rejectCreate :: "forecast_values \<Rightarrow> string option"

definition getHistoricalData :: "database \<Rightarrow> string \<Rightarrow> nat \<Rightarrow> string option \<Rightarrow> sample list" where
  "getHistoricalData db channelId hour skillId =
     (case findHistory db channelId hour skillId of
        Inr historicalForecasts \<Rightarrow> historicalForecasts
      | Inl e \<Rightarrow> [])"

definition js_truthy :: "jsnum \<Rightarrow> bool" where
  "js_truthy x = (x \<noteq> Num 0 \<and> x \<noteq> NaN)"

text \<open>The \<open>beforeValidate\<close> hook of the Forecast model.\<close>

definition default_confidence :: "string \<Rightarrow> jsnum" where
  "default_confidence method =
     (if method = ''machine_learning'' then Num 0.85
      else if method = ''seasonal_decomposition'' then Num 0.80
      else if method = ''trend_analysis'' then Num 0.75
      else if method = ''historical_average'' then Num 0.70
      else if method = ''manual'' then Num 0.60
      else Num 0.70)"

definition beforeValidate :: "forecast_values \<Rightarrow> forecast_values" where
  "beforeValidate forecast =
     (let f1 = (if js_truthy (predicted_volume forecast) \<and> \<not> js_truthy (min_volume forecast)
                then forecast\<lparr>min_volume :=
                       js_max (Num 0) (js_floor (js_mul (predicted_volume forecast) (Num 0.7)))\<rparr>
                else forecast);
          f2 = (if js_truthy (predicted_volume f1) \<and> \<not> js_truthy (max_volume f1)
                then f1\<lparr>max_volume := js_ceil (js_mul (predicted_volume f1) (Num 1.3))\<rparr>
                else f1)
      in if \<not> js_truthy (confidence_level f2)
         then f2\<lparr>confidence_level := default_confidence (forecast_method f2)\<rparr>
         else f2)"

text \<open>
  The Forecast model declares no attribute \<open>channel_id\<close> or \<open>skill_id\<close>. Its foreign keys
  come from \<open>Forecast.belongsTo(Channel)\<close> and \<open>Forecast.belongsTo(Skill)\<close>, declared
  without a \<open>foreignKey\<close> under \<open>underscored: true\<close>, so their attributes are \<open>ChannelId\<close>
  and \<open>SkillId\<close>, stored in the columns \<open>channel_id\<close> and \<open>skill_id\<close>. Building an
  instance ignores the keys of the given object that are not attributes of the model, so
  the keys \<open>channel_id\<close> and \<open>skill_id\<close> handed to \<open>Forecast.create\<close> are dropped: the two
  columns of the row it writes are NULL.
\<close>

definition Forecast_build :: "forecast_values \<Rightarrow> forecast_values" where
  "Forecast_build attributes = attributes\<lparr>channel_id := None, skill_id := None\<rparr>"

text \<open>The unique index \<open>unique_forecast_period\<close> of the Forecast model on the columns
  \<open>channel_id\<close>, \<open>skill_id\<close>, \<open>forecast_date\<close> and \<open>forecast_hour\<close>, enforced by the
  storage. In a unique index NULL is distinct from every value, NULL included (PostgreSQL
  and SQLite, the two dialects of the configuration): a key with a NULL column collides
  with no other key.\<close>

definition same_period :: "forecast_values \<Rightarrow> forecast_values \<Rightarrow> bool" where
  "same_period r forecast =
     (channel_id r \<noteq> None \<and> channel_id r = channel_id forecast \<and>
      skill_id r \<noteq> None \<and> skill_id r = skill_id forecast \<and>
      forecast_date r = forecast_date forecast \<and> forecast_hour r = forecast_hour forecast)"

definition unique_forecast_period :: "forecast_values list \<Rightarrow> forecast_values \<Rightarrow> bool" where
  "unique_forecast_period rows forecast = list_ex (\<lambda>r. same_period r forecast) rows"

text \<open>\<open>Forecast.create\<close>: the instance is built, the hook runs, and the row is written
  unless the storage refuses it or it collides in the unique index.\<close>

definition Forecast_create ::
  "database \<Rightarrow> forecast_values list \<Rightarrow> forecast_values \<Rightarrow>
   error + forecast_values \<times> forecast_values list" where
  "Forecast_create db rows attributes =
     (let forecast = beforeValidate (Forecast_build attributes)
      in case rejectCreate db forecast of
           Some e \<Rightarrow> Inl (StorageError e)
         | None \<Rightarrow>
             if unique_forecast_period rows forecast
             then Inl (StorageError ''unique_forecast_period'')
             else Inr (forecast, rows @ [forecast]))"

text \<open>The attributes of the forecast of one hour, computed in the body of the loop.\<close>

definition hourly_attributes ::
  "database \<Rightarrow> string \<Rightarrow> channel \<Rightarrow> moment_date \<Rightarrow> string option \<Rightarrow> nat \<Rightarrow> forecast_values" where
  "hourly_attributes db channelId channel targetDate skillId hour =
     (let historicalData = getHistoricalData db channelId hour skillId;
          seasonalFactors = getSeasonalFactors targetDate hour;
          externalFactors = getExternalFactors targetDate hour;
          predictedVolume = calculatePredictedVolume historicalData seasonalFactors externalFactors;
          requiredAgents = calculateRequiredAgents predictedVolume channel skillId
      in \<lparr>channel_id = Some channelId,
          skill_id = skillId,
          forecast_date = targetDate,
          forecast_hour = hour,
          forecast_type = ''hourly'',
          forecast_method = ''seasonal_decomposition'',
          predicted_volume = volume predictedVolume,
          confidence_level = confidence predictedVolume,
          min_volume = minVolume predictedVolume,
          max_volume = maxVolume predictedVolume,
          required_agents = required requiredAgents,
          optimal_agents = optimal requiredAgents,
          minimum_agents = minimum requiredAgents,
          predicted_service_level = predictedServiceLevel requiredAgents,
          predicted_average_wait_time = predictedWaitTime requiredAgents,
          seasonal_factor = seasonal seasonalFactors,
          trend_factor = trend seasonalFactors,
          special_event_factor = specialEvent externalFactors,
          weather_factor = weather externalFactors,
          external_factors = externalFactors,
          status = ''generated'',
          model_version = ''1.0.0'',
          created_by = ''system''\<rparr>)"

text \<open>The loop over the hours, with the forecasts pushed so far and the stored rows. A
  thrown error leaves the loop; the rows written before it stay stored.\<close>

fun hourly_loop ::
  "database \<Rightarrow> string \<Rightarrow> channel \<Rightarrow> moment_date \<Rightarrow> string option \<Rightarrow> nat list \<Rightarrow>
   forecast_values list \<Rightarrow> forecast_values list \<Rightarrow>
   (error + forecast_values list) \<times> forecast_values list"
where
  "hourly_loop db channelId channel targetDate skillId [] forecasts rows = (Inr forecasts, rows)"
| "hourly_loop db channelId channel targetDate skillId (hour # hours) forecasts rows =
     (if \<not> isOperatingHour hour channel
      then hourly_loop db channelId channel targetDate skillId hours forecasts rows
      else
        (case Forecast_create db rows
                (hourly_attributes db channelId channel targetDate skillId hour) of
           Inl e \<Rightarrow> (Inl e, rows)
         | Inr (forecast, rows') \<Rightarrow>
             hourly_loop db channelId channel targetDate skillId hours
               (forecasts @ [forecast]) rows'))"

definition generateHourlyForecasts ::
  "database \<Rightarrow> forecast_values list \<Rightarrow> string \<Rightarrow> moment_date \<Rightarrow> string option \<Rightarrow>
   (error + forecast_values list) \<times> forecast_values list" where
  "generateHourlyForecasts db rows channelId targetDate skillId =
     (case findChannel db channelId of
        Inl e \<Rightarrow> (Inl (StorageError e), rows)
      | Inr None \<Rightarrow> (Inl ChannelNotFound, rows)
      | Inr (Some channel) \<Rightarrow>
          hourly_loop db channelId channel targetDate skillId [0..<24] [] rows)"

text \<open>The row that \<open>Forecast.create\<close> writes for an hour, and the forecasts a batch
  returns when it returns any: one for every operating hour.\<close>

definition hourly_forecast ::
  "database \<Rightarrow> string \<Rightarrow> channel \<Rightarrow> moment_date \<Rightarrow> string option \<Rightarrow> nat \<Rightarrow> forecast_values" where
  "hourly_forecast db channelId channel targetDate skillId hour =
     beforeValidate (Forecast_build (hourly_attributes db channelId channel targetDate skillId hour))"

definition batch_forecasts ::
  "database \<Rightarrow> string \<Rightarrow> channel \<Rightarrow> moment_date \<Rightarrow> string option \<Rightarrow> nat list \<Rightarrow>
   forecast_values list" where
  "batch_forecasts db channelId channel targetDate skillId hours =
     map (hourly_forecast db channelId channel targetDate skillId)
       (filter (\<lambda>hour. isOperatingHour hour channel) hours)"

text \<open>Inputs used in the examples below: a channel open from 08:00 to 11:00, Monday 4 March
  2024, a storage whose history query fails, one that also refuses a forecast whose
  predicted volume is not a number, and one whose write for hour 9 fails.\<close>

definition ex_short_channel :: channel where
  "ex_short_channel = ex_channel\<lparr>operating_hours_end := 660\<rparr>"

definition ex_date :: moment_date where
  "ex_date = \<lparr>year = 2024, month = 2, date = 4, day = 1\<rparr>"

definition ex_db :: database where
  "ex_db =
     \<lparr>findChannel = (\<lambda>i. if i = ''voice'' then Inr (Some ex_short_channel) else Inr None),
      findHistory = (\<lambda>i hour skill. Inl ''connection lost''),
      rejectCreate = (\<lambda>forecast. None)\<rparr>"

definition ex_db_strict :: database where
  "ex_db_strict =
     ex_db\<lparr>rejectCreate :=
       (\<lambda>forecast. if predicted_volume forecast = NaN then Some ''validation'' else None)\<rparr>"

definition ex_db_write_fails :: database where
  "ex_db_write_fails =
     ex_db\<lparr>rejectCreate :=
       (\<lambda>forecast. if forecast_hour forecast = 9 then Some ''write failed'' else None)\<rparr>"

section \<open>Properties of the demand predictor\<close>

subsection \<open>Arithmetic on finite numbers\<close>

lemma js_max_Num: "js_max (Num a) (Num b) = Num (max a b)"
  by (simp add: js_max_def max_def)

lemma js_min_Num: "js_min (Num a) (Num b) = Num (min a b)"
  by (simp add: js_min_def min_def)

lemma js_sub_Num: "js_sub (Num a) (Num b) = Num (a - b)"
  by (simp add: js_sub_def)

lemma js_le_Num: "js_le (Num a) (Num b) = (a \<le> b)"
  by (auto simp: js_le_def)

lemma js_ge_Num: "js_ge (Num a) (Num b) = (b \<le> a)"
  by (simp add: js_ge_def js_le_Num)

lemma foldl_js_add_Num: "foldl js_add (Num a) (map Num xs) = Num (a + sum_list xs)"
  by (induction xs arbitrary: a) (simp_all add: add.assoc)

lemma js_sum_Num: "js_sum (map Num xs) = Num (sum_list xs)"
  by (simp add: js_sum_def foldl_js_add_Num)

subsection \<open>The variance is the population variance\<close>

lemma population_variance_nonneg: "0 \<le> population_variance xs"
  unfolding population_variance_def
  by (intro divide_nonneg_nonneg sum_list_nonneg) auto

lemma population_variance_short: "length xs < 2 \<Longrightarrow> population_variance xs = 0"
proof (cases xs)
  case Nil
  then show ?thesis by (simp add: population_variance_def)
next
  case (Cons x ys)
  assume "length xs < 2"
  with Cons have "ys = []" by simp
  with Cons show ?thesis by (simp add: population_variance_def mean_def)
qed

lemma calculateVariance_Num:
  "calculateVariance (map Num xs) = Num (population_variance xs)"
proof (cases "length xs < 2")
  case True
  then show ?thesis by (simp add: calculateVariance_def population_variance_short)
next
  case False
  then have len: "real (length xs) \<noteq> 0" by auto
  have sq: "map (\<lambda>val. js_mul (js_sub val (Num (mean xs))) (js_sub val (Num (mean xs)))) (map Num xs)
          = map Num (map (\<lambda>x. (x - mean xs)\<^sup>2) xs)"
    by (simp add: js_sub_def power2_eq_square)
  show ?thesis
    using False len
    by (simp add: calculateVariance_def js_sum_Num Let_def mean_def[symmetric] sq
        population_variance_def del: map_map)
qed

subsection \<open>The prediction on finite inputs with a non-zero mean\<close>

lemma calculatePredictedVolume_finite:
  assumes ne: "historicalData \<noteq> []"
    and sf: "seasonal sf = Num s" "trend sf = Num t"
    and ef: "specialEvent ef = Num e" "weather ef = Num w" "holidayFactor ef = Num h"
    and vols: "vols = map (\<lambda>d. real_of_int (sample_volume d)) historicalData"
    and m: "mean vols \<noteq> 0"
    and c: "c = max 0.40 (min 0.95 (1 - population_variance vols / mean vols))"
    and f: "f = real_of_int \<lfloor>mean vols * s * t * e * w * h + 1 / 2\<rfloor>"
  shows "calculatePredictedVolume historicalData sf ef =
     \<lparr>volume = Num f, confidence = Num c,
      minVolume = Num (max 0 (real_of_int \<lfloor>f * (1 - (1 - c))\<rfloor>)),
      maxVolume = Num (real_of_int \<lceil>f * (1 + (1 - c))\<rceil>)\<rparr>"
proof -
  have mp: "map (\<lambda>d. Num (real_of_int (sample_volume d))) historicalData = map Num vols"
    by (simp add: vols)
  have len: "length vols = length historicalData" by (simp add: vols)
  have base: "js_div (js_sum (map Num vols)) (Num (real (length historicalData))) = Num (mean vols)"
    using ne by (simp add: js_sum_Num mean_def len)
  have q: "js_div (Num (population_variance vols)) (Num (mean vols))
             = Num (population_variance vols / mean vols)"
    using m by simp
  show ?thesis
    using ne
    by (simp only: calculatePredictedVolume_def mp base calculateVariance_Num sf ef Let_def
        q js_sub_Num js_max_Num js_min_Num js_mul.simps js_round.simps js_floor.simps
        js_ceil.simps js_add.simps c f length_0_conv if_False)
qed

lemmas prediction_eval =
  calculatePredictedVolume_def ex_sample_def unit_seasonal_def unit_external_def
  calculateVariance_def js_sum_def js_sub_def js_max_def js_min_def Let_def js_le_def

text \<open>
  C1 (as amended). With finite factors: for the empty history the confidence is exactly
  0.30; for a non-empty history whose mean volume is not zero the confidence is
  \<open>clamp(1 - variance / baseVolume, 0.40, 0.95)\<close>, with the population variance and the
  arithmetic mean of the sample volumes, so it lies in \<open>[0.40, 0.95]\<close>; and if moreover the
  predicted volume is not negative, then \<open>minVolume \<le> volume \<le> maxVolume\<close>.
\<close>

theorem calculatePredictedVolume_bounds:
  assumes sf: "seasonal sf = Num s" "trend sf = Num t"
    and ef: "specialEvent ef = Num e" "weather ef = Num w" "holidayFactor ef = Num h"
  shows
    "(historicalData = [] \<longrightarrow>
        confidence (calculatePredictedVolume historicalData sf ef) = Num 0.30) \<and>
     (historicalData \<noteq> [] \<and>
      mean (map (\<lambda>d. real_of_int (sample_volume d)) historicalData) \<noteq> 0 \<longrightarrow>
        confidence (calculatePredictedVolume historicalData sf ef) =
          Num (max 0.40 (min 0.95
            (1 - population_variance (map (\<lambda>d. real_of_int (sample_volume d)) historicalData)
                 / mean (map (\<lambda>d. real_of_int (sample_volume d)) historicalData)))) \<and>
        js_le (Num 0.40) (confidence (calculatePredictedVolume historicalData sf ef)) \<and>
        js_le (confidence (calculatePredictedVolume historicalData sf ef)) (Num 0.95) \<and>
        (js_le (Num 0) (volume (calculatePredictedVolume historicalData sf ef)) \<longrightarrow>
           js_le (minVolume (calculatePredictedVolume historicalData sf ef))
                 (volume (calculatePredictedVolume historicalData sf ef)) \<and>
           js_le (volume (calculatePredictedVolume historicalData sf ef))
                 (maxVolume (calculatePredictedVolume historicalData sf ef))))"
proof (intro conjI impI)
  assume "historicalData = []"
  then show "confidence (calculatePredictedVolume historicalData sf ef) = Num 0.30"
    by (simp add: calculatePredictedVolume_def)
next
  define vols where "vols = map (\<lambda>d. real_of_int (sample_volume d)) historicalData"
  define c where "c = max 0.40 (min 0.95 (1 - population_variance vols / mean vols))"
  define f where "f = real_of_int \<lfloor>mean vols * s * t * e * w * h + 1 / 2\<rfloor>"
  assume "historicalData \<noteq> [] \<and>
      mean (map (\<lambda>d. real_of_int (sample_volume d)) historicalData) \<noteq> 0"
  then have ne: "historicalData \<noteq> []" and m: "mean vols \<noteq> 0"
    by (simp_all add: vols_def)
  note p = calculatePredictedVolume_finite [OF ne sf ef vols_def m c_def f_def]
  have c_lo: "0.40 \<le> c"
    unfolding c_def by (rule max.cobounded1)
  have c_hi: "c \<le> 0.95"
    unfolding c_def by (intro max.boundedI min.cobounded1) simp
  show "confidence (calculatePredictedVolume historicalData sf ef) =
          Num (max 0.40 (min 0.95
            (1 - population_variance (map (\<lambda>d. real_of_int (sample_volume d)) historicalData)
                 / mean (map (\<lambda>d. real_of_int (sample_volume d)) historicalData))))"
    by (simp only: p c_def vols_def prediction.simps)
  show "js_le (Num 0.40) (confidence (calculatePredictedVolume historicalData sf ef))"
    using c_lo by (simp only: p prediction.simps js_le_Num)
  show "js_le (confidence (calculatePredictedVolume historicalData sf ef)) (Num 0.95)"
    using c_hi by (simp only: p prediction.simps js_le_Num)
  assume "js_le (Num 0) (volume (calculatePredictedVolume historicalData sf ef))"
  then have f0: "0 \<le> f"
    by (simp only: p prediction.simps js_le_Num)
  obtain k :: int where k: "f = real_of_int k"
    by (auto simp: f_def)
  have "f * (1 - (1 - c)) \<le> f"
    using f0 c_hi by (simp add: mult_left_le)
  then have "\<lfloor>f * (1 - (1 - c))\<rfloor> \<le> k"
    unfolding k by (simp add: floor_le_iff)
  then have lo: "max 0 (real_of_int \<lfloor>f * (1 - (1 - c))\<rfloor>) \<le> f"
    using f0 by (simp add: k)
  have "f \<le> f * (1 + (1 - c))"
    using f0 c_hi by (simp add: mult_le_cancel_left1)
  then have "k \<le> \<lceil>f * (1 + (1 - c))\<rceil>"
    unfolding k by (simp add: le_ceiling_iff)
  then have hi: "f \<le> real_of_int \<lceil>f * (1 + (1 - c))\<rceil>"
    by (simp add: k)
  show "js_le (minVolume (calculatePredictedVolume historicalData sf ef))
                 (volume (calculatePredictedVolume historicalData sf ef))"
    using lo by (simp only: p prediction.simps js_le_Num)
  show "js_le (volume (calculatePredictedVolume historicalData sf ef))
                 (maxVolume (calculatePredictedVolume historicalData sf ef))"
    using hi by (simp only: p prediction.simps js_le_Num)
qed

text \<open>The amended statement at the samples 18 and 22 with all factors 1 (mean 20, variance
  4, confidence 0.8, bounds 16 and 24), and at the empty history.\<close>

theorem calculatePredictedVolume_bounds_witness:
  "confidence (calculatePredictedVolume [ex_sample 18, ex_sample 22] unit_seasonal unit_external)
     = Num 0.8 \<and>
   prediction_in_bounds
     (calculatePredictedVolume [ex_sample 18, ex_sample 22] unit_seasonal unit_external) \<and>
   confidence (calculatePredictedVolume [] unit_seasonal unit_external) = Num 0.30"
  using
    calculatePredictedVolume_bounds
      [of unit_seasonal 1 1 unit_external 1 1 1 "[ex_sample 18, ex_sample 22]"]
    calculatePredictedVolume_bounds [of unit_seasonal 1 1 unit_external 1 1 1 "[]"]
  by (simp add: prediction_in_bounds_def mean_def population_variance_def prediction_eval)

text \<open>
  C1 as stated fails. With the seasonal factor \<open>-1\<close> and one sample of volume 10 the
  predicted volume is \<open>-10\<close> and the minimum volume is 0. With one sample of volume 0 and
  all factors 1 the mean is 0, the quotient \<open>variance / baseVolume\<close> is \<open>0 / 0\<close>, and
  the confidence and both bounds are NaN.
\<close>

theorem calculatePredictedVolume_bounds_counterexample:
  "\<not> prediction_in_bounds
       (calculatePredictedVolume [ex_sample 10] \<lparr>seasonal = Num (- 1), trend = Num 1\<rparr>
          unit_external) \<and>
   \<not> prediction_in_bounds
       (calculatePredictedVolume [ex_sample 0] unit_seasonal unit_external)"
  by (simp add: prediction_in_bounds_def prediction_eval)

text \<open>
  C3. For the empty list of historical samples, whatever the seasonal, trend and external
  factors are, \<open>calculatePredictedVolume\<close> returns the fixed record with volume 10,
  confidence 0.30, minimum volume 5 and maximum volume 20. The function is total, so this
  is a returned value and not an error.
\<close>

theorem calculatePredictedVolume_empty:
  "calculatePredictedVolume [] seasonalFactors externalFactors =
     \<lparr>volume = Num 10, confidence = Num 0.30, minVolume = Num 5, maxVolume = Num 20\<rparr>"
  by (simp add: calculatePredictedVolume_def)

section \<open>Properties of the rounding to binary64\<close>

lemma round_half_even_of_int: "round_half_even (of_int n) = n"
  by (simp add: round_half_even_def)

lemma round_half_even_bounds:
  "\<lfloor>x\<rfloor> \<le> round_half_even x" "round_half_even x \<le> \<lfloor>x\<rfloor> + 1"
  by (simp_all add: round_half_even_def Let_def)

lemma round_half_even_mono: "x \<le> y \<Longrightarrow> round_half_even x \<le> round_half_even y"
proof (cases "\<lfloor>x\<rfloor> = \<lfloor>y\<rfloor>")
  case True
  assume "x \<le> y"
  with True show ?thesis
    by (auto simp: round_half_even_def Let_def)
next
  case False
  assume "x \<le> y"
  then have "\<lfloor>x\<rfloor> \<le> \<lfloor>y\<rfloor>"
    by (rule floor_mono)
  with False have "\<lfloor>x\<rfloor> + 1 \<le> \<lfloor>y\<rfloor>"
    by simp
  with round_half_even_bounds(2) [of x] round_half_even_bounds(1) [of y] show ?thesis
    by linarith
qed

lemma bitlen_pos: "0 < n \<Longrightarrow> 1 \<le> bitlen n"
  using bitlen_eq_zero_iff [of n] bitlen_nonneg [of n] by linarith

lemma exponent_bounds:
  assumes "0 < x"
  shows "2 powi exponent x \<le> x" and "x < 2 powi (exponent x + 1)"
proof -
  have "2 powi exponent x \<le> x \<and> x < 2 powi (exponent x + 1)"
  proof (cases "1 \<le> x")
    case True
    define n where "n = \<lfloor>x\<rfloor>"
    have n: "1 \<le> n" "of_int n \<le> x" "x < of_int n + 1"
      using True by (simp_all add: n_def)
    define b where "b = bitlen n"
    have b: "1 \<le> b" using n(1) bitlen_pos [of n] by (simp add: b_def)
    have bb: "2 ^ nat (b - 1) \<le> n" "n < 2 ^ nat b"
      using bitlen_bounds [of n] n(1) by (simp_all add: b_def)
    have e: "exponent x = b - 1"
      using True by (simp add: exponent_def n_def b_def)
    have "2 powi (b - 1) = real_of_int (2 ^ nat (b - 1))"
      using b by (simp add: power_int_nonneg_exp)
    also have "\<dots> \<le> real_of_int n"
      using bb(1) by (simp only: of_int_le_iff)
    finally have lo: "2 powi (b - 1) \<le> x"
      using n(2) by linarith
    have "n + 1 \<le> 2 ^ nat b" using bb(2) by simp
    then have "real_of_int (n + 1) \<le> real_of_int (2 ^ nat b)"
      by (simp only: of_int_le_iff)
    then have "x < 2 ^ nat b"
      using n(3) by simp
    moreover have "2 powi b = (2::real) ^ nat b"
      using b by (simp add: power_int_nonneg_exp)
    ultimately show ?thesis
      using lo by (simp add: e)
  next
    case False
    define y where "y = 1 / x"
    have y: "1 < y" using False assms by (simp add: y_def)
    define n where "n = \<lceil>y\<rceil> - 1"
    have n: "1 \<le> n" "of_int n < y" "y \<le> of_int n + 1"
      using y by (simp_all add: n_def less_ceiling_iff) linarith+
    define b where "b = bitlen n"
    have b: "1 \<le> b" using n(1) bitlen_pos [of n] by (simp add: b_def)
    have bb: "2 ^ nat (b - 1) \<le> n" "n < 2 ^ nat b"
      using bitlen_bounds [of n] n(1) by (simp_all add: b_def)
    have e: "exponent x = - b"
      using False by (simp add: exponent_def n_def b_def y_def)
    have "n + 1 \<le> 2 ^ nat b" using bb(2) by simp
    then have "real_of_int (n + 1) \<le> real_of_int (2 ^ nat b)"
      by (simp only: of_int_le_iff)
    then have "y \<le> 2 ^ nat b"
      using n(3) by simp
    then have "1 / x \<le> 2 powi b"
      using b by (simp add: power_int_nonneg_exp y_def)
    then have lo: "2 powi (- b) \<le> x"
      using assms by (simp add: power_int_minus field_simps)
    have "real_of_int (2 ^ nat (b - 1)) \<le> real_of_int n"
      using bb(1) by (simp only: of_int_le_iff)
    then have "(2::real) ^ nat (b - 1) \<le> real_of_int n"
      by simp
    then have "2 ^ nat (b - 1) < y"
      using n(2) by linarith
    then have "2 powi (b - 1) < 1 / x"
      using b by (simp add: power_int_nonneg_exp y_def)
    moreover have "0 < (2::real) powi (b - 1)"
      by simp
    ultimately have "x < 1 / 2 powi (b - 1)"
      using assms by (simp add: field_simps)
    also have "1 / 2 powi (b - 1) = (2::real) powi (- (b - 1))"
      by (rule power_int_minus_divide [symmetric])
    finally have "x < 2 powi (- b + 1)"
      by simp
    with lo show ?thesis
      by (simp add: e)
  qed
  then show "2 powi exponent x \<le> x" and "x < 2 powi (exponent x + 1)"
    by simp_all
qed

lemma pow2_le_iff: "(2::real) powi a \<le> 2 powi b \<longleftrightarrow> a \<le> b"
proof
  assume "(2::real) powi a \<le> 2 powi b"
  show "a \<le> b"
  proof (rule ccontr)
    assume "\<not> a \<le> b"
    then have "b < a" by simp
    from power_int_strict_increasing [OF this, of "2::real"] \<open>(2::real) powi a \<le> 2 powi b\<close>
    show False by simp
  qed
next
  assume "a \<le> b"
  from power_int_increasing [OF this, of "2::real"] show "(2::real) powi a \<le> 2 powi b"
    by simp
qed

lemma pow2_less_iff: "(2::real) powi a < 2 powi b \<longleftrightarrow> a < b"
  using pow2_le_iff [of b a] by linarith

lemma pow2_add: "(2::real) powi (a + b) = 2 powi a * 2 powi b"
  by (simp add: power_int_add)

lemma pow2_diff: "(2::real) powi (a - b) = 2 powi a / 2 powi b"
  by (simp add: power_int_diff)

lemma pow2_53: "(2::real) powi (e - 52) * 2 ^ 53 = 2 powi (e + 1)"
proof -
  have "(2::real) powi (e + 1) = 2 powi ((e - 52) + 53)"
    by (rule arg_cong [of _ _ "power_int 2"]) simp
  also have "\<dots> = 2 powi (e - 52) * 2 powi 53"
    by (rule pow2_add)
  finally show ?thesis
    by simp
qed

lemma pow2_52: "(2::real) powi (e - 52) * 2 ^ 52 = 2 powi e"
  using power_int_add [of "2::real" "e - 52" 52] by simp

lemma exponent_unique:
  assumes "2 powi e \<le> x" and "x < 2 powi (e + 1)"
  shows "exponent x = e"
proof -
  have "0 < x"
    using assms(1) zero_less_power_int [of "2::real" e] by linarith
  note b = exponent_bounds [OF this]
  have "2 powi e < (2::real) powi (exponent x + 1)"
    using assms(1) b(2) by linarith
  then have "e < exponent x + 1"
    by (simp only: pow2_less_iff)
  moreover have "2 powi exponent x < (2::real) powi (e + 1)"
    using assms(2) b(1) by linarith
  then have "exponent x < e + 1"
    by (simp only: pow2_less_iff)
  ultimately show ?thesis by simp
qed

lemma exponent_mono:
  assumes "0 < x" and "x \<le> y"
  shows "exponent x \<le> exponent y"
proof -
  have "0 < y" using assms by linarith
  from exponent_bounds(1) [OF assms(1)] exponent_bounds(2) [OF this] assms(2)
  have "2 powi exponent x < (2::real) powi (exponent y + 1)"
    by linarith
  then show ?thesis
    by (simp add: pow2_less_iff)
qed

lemma ulp_pos: "0 < ulp x"
  by (simp add: ulp_def)

lemma scaled_upper:
  assumes "0 < x"
  shows "x / ulp x < 2 ^ 53"
proof -
  define e where "e = max (exponent x) (- 1022)"
  have "x < 2 powi (exponent x + 1)"
    by (rule exponent_bounds(2) [OF assms])
  also have "\<dots> \<le> 2 powi (e + 1)"
    by (simp only: pow2_le_iff) (simp add: e_def)
  also have "\<dots> = 2 powi (e - 52) * 2 ^ 53"
    by (rule pow2_53 [symmetric])
  finally have "x < ulp x * 2 ^ 53"
    by (simp add: ulp_def e_def)
  then show ?thesis
    using ulp_pos [of x] by (simp add: field_simps)
qed

lemma scaled_lower:
  assumes "0 < x" and "- 1022 \<le> exponent x"
  shows "2 ^ 52 \<le> x / ulp x"
proof -
  have u: "ulp x = 2 powi (exponent x - 52)"
    using assms(2) by (simp add: ulp_def max_def)
  have "2 powi (exponent x - 52) * 2 ^ 52 = (2::real) powi exponent x"
    by (rule pow2_52)
  also have "\<dots> \<le> x"
    by (rule exponent_bounds(1) [OF assms(1)])
  finally have "ulp x * 2 ^ 52 \<le> x"
    by (simp add: u)
  then show ?thesis
    using ulp_pos [of x] by (simp add: field_simps)
qed

lemma round_half_even_pow2: "round_half_even (2 ^ n) = 2 ^ n"
  using round_half_even_of_int [of "2 ^ n"] by simp

lemma nearest_nonneg: "0 \<le> x \<Longrightarrow> 0 \<le> nearest x"
proof -
  assume "0 \<le> x"
  then have "0 \<le> x / ulp x"
    using ulp_pos [of x] by simp
  then have "0 \<le> \<lfloor>x / ulp x\<rfloor>"
    by simp
  with round_half_even_bounds(1) [of "x / ulp x"] have "0 \<le> round_half_even (x / ulp x)"
    by linarith
  then show ?thesis
    using ulp_pos [of x] by (simp add: nearest_def)
qed

lemma nearest_upper:
  assumes "0 < x"
  shows "nearest x \<le> 2 powi (max (exponent x) (- 1022) + 1)"
proof -
  have "round_half_even (x / ulp x) \<le> round_half_even (2 ^ 53)"
    using scaled_upper [OF assms] by (intro round_half_even_mono) simp
  then have "real_of_int (round_half_even (x / ulp x)) \<le> 2 ^ 53"
    by (simp only: round_half_even_pow2) (metis of_int_le_iff of_int_numeral of_int_power)
  then have "nearest x \<le> 2 ^ 53 * ulp x"
    using assms ulp_pos [of x] by (simp add: nearest_def)
  also have "\<dots> = 2 powi (max (exponent x) (- 1022) + 1)"
    unfolding ulp_def using pow2_53 [of "max (exponent x) (- 1022)"] by (simp add: mult.commute)
  finally show ?thesis .
qed

lemma nearest_lower:
  assumes "0 < x" and "- 1022 \<le> exponent x"
  shows "2 powi exponent x \<le> nearest x"
proof -
  have u: "ulp x = 2 powi (exponent x - 52)"
    using assms(2) by (simp add: ulp_def max_def)
  have "round_half_even (2 ^ 52) \<le> round_half_even (x / ulp x)"
    using scaled_lower [OF assms] by (intro round_half_even_mono)
  then have "2 ^ 52 \<le> real_of_int (round_half_even (x / ulp x))"
    by (simp only: round_half_even_pow2) (metis of_int_le_iff of_int_numeral of_int_power)
  then have "2 ^ 52 * ulp x \<le> nearest x"
    using assms ulp_pos [of x] by (simp add: nearest_def)
  moreover have "2 ^ 52 * ulp x = 2 powi exponent x"
    unfolding u using pow2_52 [of "exponent x"] by (simp add: mult.commute)
  ultimately show ?thesis by simp
qed

lemma nearest_mono:
  assumes "0 \<le> x" and "x \<le> y"
  shows "nearest x \<le> nearest y"
proof (cases "x = 0")
  case True
  with assms nearest_nonneg [of y] show ?thesis
    by (simp add: nearest_def)
next
  case False
  with assms have x: "0 < x" and y: "0 < y" by simp_all
  define ex where "ex = max (exponent x) (- 1022)"
  define ey where "ey = max (exponent y) (- 1022)"
  have le: "ex \<le> ey"
    using exponent_mono [OF x assms(2)] by (simp add: ex_def ey_def)
  show ?thesis
  proof (cases "ex = ey")
    case True
    then have u: "ulp x = ulp y"
      by (simp add: ulp_def ex_def ey_def)
    have "x / ulp y \<le> y / ulp y"
      using assms(2) ulp_pos [of y] by (simp add: divide_right_mono)
    then have "round_half_even (x / ulp y) \<le> round_half_even (y / ulp y)"
      by (rule round_half_even_mono)
    then have "real_of_int (round_half_even (x / ulp y)) * ulp y
                 \<le> real_of_int (round_half_even (y / ulp y)) * ulp y"
      using ulp_pos [of y] by (simp add: mult_right_mono)
    then show ?thesis
      using x y by (simp add: nearest_def u)
  next
    case False
    with le have lt: "ex + 1 \<le> ey" by simp
    then have "- 1022 < ey" by (simp add: ex_def)
    then have ny: "- 1022 \<le> exponent y" and eyy: "ey = exponent y"
      by (simp_all add: ey_def max_def split: if_splits)
    have "nearest x \<le> 2 powi (ex + 1)"
      using nearest_upper [OF x] by (simp add: ex_def)
    also have "\<dots> \<le> 2 powi ey"
      using lt by (simp only: pow2_le_iff)
    also have "\<dots> \<le> nearest y"
      using nearest_lower [OF y ny] by (simp add: eyy)
    finally show ?thesis .
  qed
qed

lemma binary64_nonneg: "0 \<le> x \<Longrightarrow> binary64 x = nearest x"
  by (cases "x = 0") (simp_all add: binary64_def nearest_def)

lemma binary64_neg: "x < 0 \<Longrightarrow> binary64 x = - nearest (- x)"
  by (simp add: binary64_def)

lemma binary64_minus: "binary64 (- x) = - binary64 x"
  by (simp add: binary64_def sgn_minus)

lemma binary64_mono:
  assumes "x \<le> y"
  shows "binary64 x \<le> binary64 y"
proof (cases "0 \<le> x")
  case True
  with assms have "0 \<le> y" by simp
  with True assms show ?thesis
    by (simp add: binary64_nonneg nearest_mono)
next
  case False
  then have x: "x < 0" by simp
  show ?thesis
  proof (cases "0 \<le> y")
    case True
    then have "0 \<le> nearest y" by (rule nearest_nonneg)
    moreover have "0 \<le> nearest (- x)" using x by (intro nearest_nonneg) simp
    ultimately show ?thesis
      using x True by (simp add: binary64_nonneg binary64_neg)
  next
    case False
    then have y: "y < 0" by simp
    have "nearest (- y) \<le> nearest (- x)"
      using y assms by (intro nearest_mono) simp_all
    then show ?thesis
      using x y by (simp add: binary64_neg)
  qed
qed


lemma nearest_fixes:
  assumes m: "0 < m" "m \<le> 2 ^ 53" and q: "- 1074 \<le> q"
  shows "nearest (of_int m * 2 powi q) = of_int m * 2 powi q"
proof -
  define y where "y = real_of_int m * 2 powi q"
  define e where "e = max (exponent y) (- 1022)"
  have y: "0 < y"
    using m(1) by (simp add: y_def)
  have u: "ulp y = 2 powi (e - 52)"
    by (simp add: ulp_def e_def)
  have "real_of_int m \<le> 2 ^ 53"
    using m(2) by (metis of_int_le_iff of_int_numeral of_int_power)
  then have "y \<le> 2 ^ 53 * 2 powi q"
    unfolding y_def by (intro mult_right_mono) simp_all
  also have "\<dots> = 2 powi (q + 53)"
    using pow2_add [of q 53] by simp
  finally have up: "y \<le> 2 powi (q + 53)" .
  have "2 powi exponent y \<le> (2::real) powi (q + 53)"
    using exponent_bounds(1) [OF y] up by linarith
  then have "exponent y \<le> q + 53"
    by (simp only: pow2_le_iff)
  then have e_le: "e \<le> q + 53"
    using q by (simp add: e_def)
  show ?thesis
  proof (cases "e \<le> q + 52")
    case True
    define k where "k = nat (q + 52 - e)"
    have "y / ulp y = real_of_int m * (2 powi q / 2 powi (e - 52))"
      by (simp only: u) (simp add: y_def)
    also have "2 powi q / 2 powi (e - 52) = (2::real) powi (q - (e - 52))"
      by (rule pow2_diff [symmetric])
    also have "q - (e - 52) = int k"
      using True by (simp add: k_def)
    finally have "y / ulp y = real_of_int (m * 2 ^ k)"
      by simp
    then have "round_half_even (y / ulp y) = m * 2 ^ k"
      by (simp only: round_half_even_of_int)
    then have "real_of_int (round_half_even (y / ulp y)) = y / ulp y"
      using \<open>y / ulp y = real_of_int (m * 2 ^ k)\<close> by simp
    then have "nearest y = y / ulp y * ulp y"
      using y by (simp add: nearest_def)
    then show ?thesis
      using ulp_pos [of y] by (simp add: y_def)
  next
    case False
    with e_le have e: "e = q + 53" by simp
    with q have "- 1022 < e" by simp
    then have ey: "e = exponent y"
      by (simp add: e_def max_def split: if_splits)
    have "2 powi (q + 53) \<le> y"
      using exponent_bounds(1) [OF y] by (simp add: ey [symmetric] e)
    with up have yv: "y = 2 powi e"
      by (simp add: e)
    have "y / ulp y = 2 powi e / 2 powi (e - 52)"
      by (simp only: u) (simp add: yv)
    also have "\<dots> = 2 powi (e - (e - 52))"
      by (rule pow2_diff [symmetric])
    finally have sc: "y / ulp y = 2 ^ 52"
      by simp
    have "nearest y = 2 ^ 52 * ulp y"
      using y round_half_even_of_int [of "2 ^ 52"] by (simp add: nearest_def sc)
    also have "\<dots> = 2 powi e"
      unfolding u using pow2_52 [of e] by (simp add: mult.commute)
    finally show ?thesis
      by (simp add: yv [symmetric]) (simp add: y_def)
  qed
qed

lemma nearest_form:
  assumes "0 < x"
  shows "\<exists>m q. nearest x = real_of_int m * 2 powi q \<and> 0 \<le> m \<and> m \<le> 2 ^ 53 \<and> - 1074 \<le> q"
proof (intro exI conjI)
  show "nearest x = real_of_int (round_half_even (x / ulp x)) * 2 powi (max (exponent x) (- 1022) - 52)"
    using assms by (simp add: nearest_def ulp_def)
  have "0 \<le> x / ulp x"
    using assms ulp_pos [of x] by simp
  then have "0 \<le> \<lfloor>x / ulp x\<rfloor>"
    by simp
  with round_half_even_bounds(1) [of "x / ulp x"] show "0 \<le> round_half_even (x / ulp x)"
    by linarith
  have "round_half_even (x / ulp x) \<le> round_half_even (2 ^ 53)"
    using scaled_upper [OF assms] by (intro round_half_even_mono) simp
  then show "round_half_even (x / ulp x) \<le> 2 ^ 53"
    by (simp only: round_half_even_pow2)
  show "- 1074 \<le> max (exponent x) (- 1022) - 52"
    by simp
qed

lemma nearest_zero: "nearest 0 = 0"
  by (simp add: nearest_def)

lemma nearest_idem:
  assumes "0 \<le> x"
  shows "nearest (nearest x) = nearest x"
proof (cases "x = 0")
  case True
  then show ?thesis by (simp add: nearest_zero)
next
  case False
  with assms have "0 < x" by simp
  from nearest_form [OF this] obtain m q where
    f: "nearest x = real_of_int m * 2 powi q" and m: "0 \<le> m" "m \<le> 2 ^ 53" and q: "- 1074 \<le> q"
    by blast
  show ?thesis
  proof (cases "m = 0")
    case True
    with f show ?thesis by (simp add: nearest_zero)
  next
    case False
    with m(1) have "0 < m" by simp
    from nearest_fixes [OF this m(2) q] show ?thesis
      by (simp add: f)
  qed
qed

lemma binary64_idem: "binary64 (binary64 x) = binary64 x"
proof (cases "0 \<le> x")
  case True
  then have "0 \<le> nearest x" by (rule nearest_nonneg)
  with True show ?thesis
    by (simp add: binary64_nonneg nearest_idem)
next
  case False
  then have x: "x < 0" by simp
  then have "0 \<le> nearest (- x)" by (intro nearest_nonneg) simp
  then have "binary64 (nearest (- x)) = nearest (- x)"
    using x by (simp add: binary64_nonneg nearest_idem)
  then show ?thesis
    using x by (simp add: binary64_neg binary64_minus)
qed

lemma binary64_of_int:
  assumes "\<bar>n\<bar> \<le> 2 ^ 53"
  shows "binary64 (real_of_int n) = real_of_int n"
proof -
  have pos: "binary64 (real_of_int k) = real_of_int k" if "0 < k" "k \<le> 2 ^ 53" for k
    using nearest_fixes [OF that, of 0] that(1) by (simp add: binary64_nonneg)
  consider "0 < n" | "n = 0" | "n < 0" by linarith
  then show ?thesis
  proof cases
    case 1
    with assms pos [of n] show ?thesis by simp
  next
    case 2
    then show ?thesis by (simp add: binary64_def)
  next
    case 3
    with assms pos [of "- n"] have "binary64 (- real_of_int n) = - real_of_int n"
      by simp
    then show ?thesis
      by (simp add: binary64_minus)
  qed
qed

lemma binary64_form:
  "\<exists>m q. binary64 x = real_of_int m * 2 powi q \<and> \<bar>m\<bar> \<le> 2 ^ 53 \<and> - 1074 \<le> q"
proof -
  consider "0 < x" | "x = 0" | "x < 0" by linarith
  then show ?thesis
  proof cases
    case 1
    from nearest_form [OF this] obtain m q where
      "nearest x = real_of_int m * 2 powi q" "0 \<le> m" "m \<le> 2 ^ 53" "- 1074 \<le> q"
      by blast
    with 1 show ?thesis
      by (intro exI [of _ m] exI [of _ q]) (simp add: binary64_nonneg)
  next
    case 2
    then show ?thesis
      by (intro exI [of _ 0] exI [of _ 0]) (simp add: binary64_def)
  next
    case 3
    then have "0 < - x" by simp
    from nearest_form [OF this] obtain m q where
      "nearest (- x) = real_of_int m * 2 powi q" "0 \<le> m" "m \<le> 2 ^ 53" "- 1074 \<le> q"
      by blast
    with 3 show ?thesis
      by (intro exI [of _ "- m"] exI [of _ q]) (simp add: binary64_neg)
  qed
qed

lemma binary64_ceiling:
  "binary64 (real_of_int \<lceil>binary64 x\<rceil>) = real_of_int \<lceil>binary64 x\<rceil>"
proof -
  from binary64_form [of x] obtain m q where
    f: "binary64 x = real_of_int m * 2 powi q" and m: "\<bar>m\<bar> \<le> 2 ^ 53" and q: "- 1074 \<le> q"
    by blast
  show ?thesis
  proof (cases "0 \<le> q")
    case True
    then have "binary64 x = real_of_int (m * 2 ^ nat q)"
      by (simp add: f power_int_nonneg_exp)
    then have "real_of_int \<lceil>binary64 x\<rceil> = binary64 x"
      by (simp only: ceiling_of_int)
    then show ?thesis
      by (simp only: binary64_idem)
  next
    case False
    then have "(2::real) powi q \<le> 1"
      using pow2_le_iff [of q 0] by simp
    moreover have "0 \<le> (2::real) powi q" by simp
    ultimately have "\<bar>real_of_int m\<bar> * 2 powi q \<le> \<bar>real_of_int m\<bar> * 1"
      by (intro mult_left_mono) simp_all
    moreover have "\<bar>real_of_int m\<bar> \<le> 2 ^ 53"
      using m by (metis of_int_abs of_int_le_iff of_int_numeral of_int_power)
    ultimately have "\<bar>binary64 x\<bar> \<le> 2 ^ 53"
      by (simp add: f abs_mult)
    then have "- (2 ^ 53) \<le> binary64 x" and "binary64 x \<le> 2 ^ 53"
      by linarith+
    then have "- (2 ^ 53) \<le> \<lceil>binary64 x\<rceil>" and "\<lceil>binary64 x\<rceil> \<le> 2 ^ 53"
      by (simp_all add: le_ceiling_iff ceiling_le_iff)
    then have "\<bar>\<lceil>binary64 x\<rceil>\<bar> \<le> 2 ^ 53"
      by linarith
    then show ?thesis
      by (rule binary64_of_int)
  qed
qed

lemma binary64_zero_small:
  assumes "binary64 z = 0"
  shows "\<bar>z\<bar> < 2 powi (- 1022)"
proof (rule ccontr)
  assume "\<not> \<bar>z\<bar> < 2 powi (- 1022)"
  then have big: "2 powi (- 1022) \<le> \<bar>z\<bar>"
    by simp
  then have pos: "0 < \<bar>z\<bar>"
    using zero_less_power_int [of "2::real" "- 1022"] by linarith
  have "(2::real) powi (- 1022) < 2 powi (exponent \<bar>z\<bar> + 1)"
    using big exponent_bounds(2) [OF pos] by linarith
  then have "- 1022 < exponent \<bar>z\<bar> + 1"
    by (simp only: pow2_less_iff)
  then have "- 1022 \<le> exponent \<bar>z\<bar>"
    by simp
  from nearest_lower [OF pos this] have "0 < nearest \<bar>z\<bar>"
    using zero_less_power_int [of "2::real" "exponent \<bar>z\<bar>"] by linarith
  moreover have "z \<noteq> 0"
    using pos by simp
  ultimately have "binary64 z \<noteq> 0"
    by (simp add: binary64_def sgn_eq_0_iff)
  with assms show False
    by simp
qed

lemma binary64_near_one:
  assumes "1 / 2 \<le> x" and "x < 2"
  shows "\<exists>k. binary64 x = real_of_int k / 2 ^ 53"
proof -
  have pos: "0 < x" using assms by simp
  have b: "binary64 x = real_of_int (round_half_even (x / ulp x)) * ulp x"
    using pos by (simp add: binary64_nonneg nearest_def)
  show ?thesis
  proof (cases "1 \<le> x")
    case True
    have "exponent x = 0"
      using True assms(2) by (intro exponent_unique) simp_all
    then have "ulp x = 2 / 2 ^ 53"
      by (simp add: ulp_def power_int_minus_divide)
    then have "binary64 x = real_of_int (2 * round_half_even (x / ulp x)) / 2 ^ 53"
      by (simp add: b)
    then show ?thesis ..
  next
    case False
    then have "exponent x = - 1"
      using assms(1) by (intro exponent_unique) (simp_all add: power_int_minus_divide)
    then have "ulp x = 1 / 2 ^ 53"
      by (simp add: ulp_def power_int_minus_divide)
    then have "binary64 x = real_of_int (round_half_even (x / ulp x)) / 2 ^ 53"
      by (simp add: b)
    then show ?thesis ..
  qed
qed

lemma binary64_half: "binary64 (1 / 2) = 1 / 2"
  using nearest_fixes [of 1 "- 1"] by (simp add: binary64_nonneg power_int_minus_divide)

lemma binary64_numerals: "binary64 0 = 0" "binary64 1 = 1" "binary64 2 = 2" "binary64 60 = 60"
  using binary64_of_int [of 0] binary64_of_int [of 1] binary64_of_int [of 2]
    binary64_of_int [of 60]
  by simp_all

lemma b64_sub_one_nonzero:
  assumes "binary64 s \<noteq> 1"
  shows "b64_sub 1 s \<noteq> 0"
proof
  define t where "t = binary64 s"
  assume "b64_sub 1 s = 0"
  then have "binary64 (1 - t) = 0"
    by (simp add: b64_sub_def binary64_numerals t_def)
  from binary64_zero_small [OF this] have small: "\<bar>1 - t\<bar> < 2 powi (- 1022)" .
  have "(2::real) powi (- 1022) \<le> 2 powi (- 53)"
    by (simp only: pow2_le_iff)
  also have "\<dots> = 1 / 2 ^ 53"
    by (simp add: power_int_minus_divide)
  finally have lt: "\<bar>1 - t\<bar> < 1 / 2 ^ 53"
    using small by linarith
  have "(1::real) / 2 ^ 53 \<le> 1 / 2"
    by simp
  with lt have "\<bar>1 - t\<bar> < 1 / 2"
    by linarith
  then have t: "1 / 2 < t" "t < 2"
    by linarith+
  have "1 / 2 \<le> s"
  proof (rule ccontr)
    assume "\<not> 1 / 2 \<le> s"
    then have "s \<le> 1 / 2" by simp
    from binary64_mono [OF this] t(1) show False
      by (simp add: binary64_half t_def)
  qed
  moreover have "s < 2"
  proof (rule ccontr)
    assume "\<not> s < 2"
    then have "2 \<le> s" by simp
    from binary64_mono [OF this] t(2) show False
      by (simp add: binary64_numerals t_def)
  qed
  ultimately obtain k where k: "t = real_of_int k / 2 ^ 53"
    using binary64_near_one [of s] by (auto simp: t_def)
  have "1 - t = real_of_int (2 ^ 53 - k) / 2 ^ 53"
    by (simp add: k field_simps)
  with lt have "\<bar>real_of_int (2 ^ 53 - k)\<bar> < 1"
    by (simp add: field_simps)
  then have "\<bar>2 ^ 53 - k\<bar> < 1"
    by (metis of_int_abs of_int_less_iff of_int_1)
  then have "k = 2 ^ 53"
    by simp
  with k have "t = 1"
    by simp
  with assms show False
    by (simp add: t_def)
qed

section \<open>Properties of the staffing calculator\<close>

lemma or_default_min_staffing:
  "min_staffing_level channel = Some m \<Longrightarrow> m \<le> or_default (min_staffing_level channel) 1"
  by (simp add: or_default_def)

lemma f64_Num_ops:
  "f64_add (Num a) (Num b) = Num (b64_add a b)"
  "f64_sub (Num a) (Num b) = Num (b64_sub a b)"
  "f64_mul (Num a) (Num b) = Num (b64_mul a b)"
  by (simp_all add: f64_add_def f64_sub_def f64_mul_def b64_add_def b64_sub_def b64_mul_def
      js_sub_Num)

lemma f64_div_Num: "binary64 b \<noteq> 0 \<Longrightarrow> f64_div (Num a) (Num b) = Num (b64_div a b)"
  by (simp add: f64_div_def b64_div_def)

lemma calculateRequiredAgents_finite:
  assumes v: "volume predictedVolume = Num v"
    and shr: "binary64 (or_default (shrinkage_factor channel) 0.25) \<noteq> 1"
  shows "required (calculateRequiredAgents predictedVolume channel skillId) =
           Num (spec_required v channel)"
    and "optimal (calculateRequiredAgents predictedVolume channel skillId) =
           Num (spec_optimal v channel)"
    and "minimum (calculateRequiredAgents predictedVolume channel skillId) =
           Num (real_of_int (or_default (min_staffing_level channel) 1))"
proof -
  have d: "binary64 (b64_sub 1 (or_default (shrinkage_factor channel) 0.25)) \<noteq> 0"
    using b64_sub_one_nonzero [OF shr] by (simp add: b64_sub_def binary64_idem)
  have d60: "binary64 60 \<noteq> 0"
    by (simp add: binary64_numerals)
  note ops = f64_Num_ops f64_div_Num [OF d] f64_div_Num [OF d60]
  show "required (calculateRequiredAgents predictedVolume channel skillId) =
           Num (spec_required v channel)"
    by (simp only: calculateRequiredAgents_def calculateServiceLevelBuffer_def Let_def v
        staffing.simps ops js_ceil.simps js_max_Num spec_required_def spec_baseAgents_def
        spec_buffer_def)
  show "optimal (calculateRequiredAgents predictedVolume channel skillId) =
           Num (spec_optimal v channel)"
    by (simp only: calculateRequiredAgents_def calculateServiceLevelBuffer_def Let_def v
        staffing.simps ops js_ceil.simps js_max_Num spec_optimal_def spec_required_def
        spec_baseAgents_def spec_buffer_def)
  show "minimum (calculateRequiredAgents predictedVolume channel skillId) =
           Num (real_of_int (or_default (min_staffing_level channel) 1))"
    by (simp only: calculateRequiredAgents_def Let_def staffing.simps)
qed

lemma b64_mul_grows:
  assumes r: "binary64 r = r" "0 \<le> r" and b: "0 \<le> b"
  shows "r \<le> b64_mul r (b64_add 1 b)"
proof -
  have "0 \<le> binary64 b"
    using binary64_mono [OF b] by (simp add: binary64_numerals)
  then have "binary64 1 \<le> binary64 (1 + binary64 b)"
    by (intro binary64_mono) simp
  then have c: "1 \<le> b64_add 1 b"
    by (simp add: b64_add_def binary64_numerals)
  then have "r \<le> r * b64_add 1 b"
    using r(2) by (simp add: mult_le_cancel_left1)
  from binary64_mono [OF this] show ?thesis
    by (simp add: b64_mul_def b64_add_def binary64_idem r(1))
qed

lemmas binary64_eval =
  binary64_def nearest_def ulp_def exponent_def round_half_even_def Let_def compute_bitlen
  power_int_minus_divide b64_add_def b64_sub_def b64_mul_def b64_div_def

lemmas staffing_eval =
  spec_required_def spec_baseAgents_def spec_buffer_def or_default_def ex_channel_def
  default_channel_def binary64_eval

text \<open>The binary64 arithmetic decides the counts on ordinary inputs. With 7 minutes of
  handle time and shrinkage 0.3, volume 18 gives the quotient 2.1 / 0.7, which is just
  above 3 in binary64, so 4 base agents, 5 required and 6 optimal agents (3, 4 and 5 in
  exact arithmetic); with every channel parameter at its default, volume 271 gives
  50 required agents and the product 50 * 1.1, which is just above 55, so 56 optimal.\<close>

lemma calculateRequiredAgents_rounding:
  "required (calculateRequiredAgents (ex_prediction 18)
     (default_channel\<lparr>shrinkage_factor := Some 0.3\<rparr>) None) = Num 5"
  "optimal (calculateRequiredAgents (ex_prediction 18)
     (default_channel\<lparr>shrinkage_factor := Some 0.3\<rparr>) None) = Num 6"
  "required (calculateRequiredAgents (ex_prediction 271) default_channel None) = Num 50"
  "optimal (calculateRequiredAgents (ex_prediction 271) default_channel None) = Num 56"
proof -
  let ?c = "default_channel\<lparr>shrinkage_factor := Some 0.3\<rparr>"
  have v: "volume (ex_prediction x) = Num x" for x
    by (simp add: ex_prediction_def)
  have s1: "binary64 (or_default (shrinkage_factor ?c) 0.25) \<noteq> 1"
    by (simp add: staffing_eval)
  have s2: "binary64 (or_default (shrinkage_factor default_channel) 0.25) \<noteq> 1"
    by (simp add: staffing_eval)
  have r1: "spec_required 18 ?c = 5"
    by (simp add: staffing_eval)
  have o1: "spec_optimal 18 ?c = 6"
    unfolding spec_optimal_def r1 by (simp add: staffing_eval)
  have r2: "spec_required 271 default_channel = 50"
    by (simp add: staffing_eval)
  have o2: "spec_optimal 271 default_channel = 56"
    unfolding spec_optimal_def r2 by (simp add: staffing_eval)
  show "required (calculateRequiredAgents (ex_prediction 18) ?c None) = Num 5"
    by (simp only: calculateRequiredAgents_finite(1) [OF v s1] r1)
  show "optimal (calculateRequiredAgents (ex_prediction 18) ?c None) = Num 6"
    by (simp only: calculateRequiredAgents_finite(2) [OF v s1] o1)
  show "required (calculateRequiredAgents (ex_prediction 271) default_channel None) = Num 50"
    by (simp only: calculateRequiredAgents_finite(1) [OF v s2] r2)
  show "optimal (calculateRequiredAgents (ex_prediction 271) default_channel None) = Num 56"
    by (simp only: calculateRequiredAgents_finite(2) [OF v s2] o2)
qed

text \<open>
  C2 (as amended). For a finite predicted volume and an effective shrinkage other than 1,
  with every optional channel parameter replaced by its default when it is missing or
  zero, and with the arithmetic of binary64 numbers: \<open>minimum\<close> is the effective minimum
  staffing level, \<open>required = max(minimum, ceil(baseAgents * buffer))\<close>,
  \<open>optimal = ceil(required * (1 + buffer preference))\<close>, \<open>required \<ge> minimum\<close>,
  \<open>required\<close> is at least the minimum staffing level the channel row holds, and
  \<open>optimal \<ge> required\<close> whenever the effective minimum staffing level is not negative and
  not above \<open>2\<^sup>5\<^sup>3\<close> and the effective preferred buffer is not negative.
\<close>

theorem calculateRequiredAgents_bounds:
  assumes v: "volume predictedVolume = Num v"
    and shr: "binary64 (or_default (shrinkage_factor channel) 0.25) \<noteq> 1"
  shows
    "minimum (calculateRequiredAgents predictedVolume channel skillId) =
       Num (real_of_int (or_default (min_staffing_level channel) 1)) \<and>
     required (calculateRequiredAgents predictedVolume channel skillId) =
       Num (spec_required v channel) \<and>
     optimal (calculateRequiredAgents predictedVolume channel skillId) =
       Num (spec_optimal v channel) \<and>
     js_ge (required (calculateRequiredAgents predictedVolume channel skillId))
           (minimum (calculateRequiredAgents predictedVolume channel skillId)) \<and>
     (\<forall>m. min_staffing_level channel = Some m \<longrightarrow>
        js_ge (required (calculateRequiredAgents predictedVolume channel skillId))
              (Num (real_of_int m))) \<and>
     (0 \<le> or_default (min_staffing_level channel) 1 \<and>
      or_default (min_staffing_level channel) 1 \<le> 2 ^ 53 \<and>
      0 \<le> or_default (preferred_staffing_buffer channel) 0.10 \<longrightarrow>
        js_ge (optimal (calculateRequiredAgents predictedVolume channel skillId))
              (required (calculateRequiredAgents predictedVolume channel skillId)))"
proof -
  let ?r = "calculateRequiredAgents predictedVolume channel skillId"
  let ?m = "or_default (min_staffing_level channel) 1"
  let ?b = "or_default (preferred_staffing_buffer channel) 0.10"
  have req: "required ?r = Num (spec_required v channel)"
    and opt: "optimal ?r = Num (spec_optimal v channel)"
    and mini: "minimum ?r = Num (real_of_int ?m)"
    by (rule calculateRequiredAgents_finite [OF v shr])+
  have ge_min: "real_of_int ?m \<le> spec_required v channel"
    by (simp add: spec_required_def)
  have ge_conf: "real_of_int m \<le> spec_required v channel"
    if "min_staffing_level channel = Some m" for m
    using or_default_min_staffing [OF that] ge_min by linarith
  have ge_req: "spec_required v channel \<le> spec_optimal v channel"
    if m: "0 \<le> ?m" "?m \<le> 2 ^ 53" and b: "0 \<le> ?b"
  proof -
    define y where "y = binary64 (spec_baseAgents v channel) * binary64 (spec_buffer channel)"
    have r: "spec_required v channel = real_of_int (max ?m \<lceil>binary64 y\<rceil>)"
      by (simp add: spec_required_def b64_mul_def y_def)
    have "binary64 (real_of_int (max ?m \<lceil>binary64 y\<rceil>)) = real_of_int (max ?m \<lceil>binary64 y\<rceil>)"
    proof (cases "?m \<le> \<lceil>binary64 y\<rceil>")
      case True
      then show ?thesis
        by (simp add: max_absorb2 binary64_ceiling)
    next
      case False
      then have "max ?m \<lceil>binary64 y\<rceil> = ?m" by simp
      moreover have "\<bar>?m\<bar> \<le> 2 ^ 53" using m by simp
      ultimately show ?thesis
        by (simp only: binary64_of_int)
    qed
    then have fixed: "binary64 (spec_required v channel) = spec_required v channel"
      by (simp only: r)
    have "0 \<le> spec_required v channel"
      using m(1) ge_min by linarith
    from b64_mul_grows [OF fixed this b]
    have "real_of_int (max ?m \<lceil>binary64 y\<rceil>) \<le> b64_mul (spec_required v channel) (b64_add 1 ?b)"
      by (simp only: r)
    then have "max ?m \<lceil>binary64 y\<rceil> \<le> \<lceil>b64_mul (spec_required v channel) (b64_add 1 ?b)\<rceil>"
      by (simp only: le_ceiling_iff)
    then show ?thesis
      unfolding spec_optimal_def by (simp only: r of_int_le_iff)
  qed
  show ?thesis
    using ge_min ge_conf ge_req
    by (simp only: req opt mini js_ge_Num) blast
qed

text \<open>The amended statement on the end-to-end scenario: volume 20, handle time 6.5 + 2
  minutes, shrinkage 0.25, target 0.80, minimum 2, buffer 0.15 give 5 required, 6 optimal
  and 2 minimum agents.\<close>

theorem calculateRequiredAgents_bounds_witness:
  "required (calculateRequiredAgents (ex_prediction 20) ex_channel None) = Num 5 \<and>
   optimal (calculateRequiredAgents (ex_prediction 20) ex_channel None) = Num 6 \<and>
   minimum (calculateRequiredAgents (ex_prediction 20) ex_channel None) = Num 2 \<and>
   js_ge (optimal (calculateRequiredAgents (ex_prediction 20) ex_channel None))
         (required (calculateRequiredAgents (ex_prediction 20) ex_channel None))"
proof -
  have v: "volume (ex_prediction 20) = Num 20"
    by (simp add: ex_prediction_def)
  have shr: "binary64 (or_default (shrinkage_factor ex_channel) 0.25) \<noteq> 1"
    by (simp add: staffing_eval)
  have r: "spec_required 20 ex_channel = 5"
    by (simp add: staffing_eval)
  have o: "spec_optimal 20 ex_channel = 6"
    unfolding spec_optimal_def r by (simp add: staffing_eval)
  have m: "or_default (min_staffing_level ex_channel) 1 = 2"
    by (simp add: ex_channel_def or_default_def)
  from calculateRequiredAgents_bounds [OF v shr, of None] show ?thesis
    unfolding r o m by (simp add: js_ge_Num)
qed

text \<open>
  C2 as stated fails. A channel whose minimum staffing level is 0 gets \<open>minimum = 1\<close> and,
  at volume 0, \<open>required = 1\<close>, where the stated formulas give 0 for both. A channel
  whose preferred staffing buffer is \<open>-0.5\<close> gets, at volume 20, 5 required and 3 optimal
  agents.
\<close>

theorem calculateRequiredAgents_bounds_counterexample:
  "minimum (calculateRequiredAgents (ex_prediction 0)
      (ex_channel\<lparr>min_staffing_level := Some 0\<rparr>) None) = Num 1 \<and>
   required (calculateRequiredAgents (ex_prediction 0)
      (ex_channel\<lparr>min_staffing_level := Some 0\<rparr>) None) = Num 1 \<and>
   required (calculateRequiredAgents (ex_prediction 20)
      (ex_channel\<lparr>preferred_staffing_buffer := Some (- 0.5)\<rparr>) None) = Num 5 \<and>
   optimal (calculateRequiredAgents (ex_prediction 20)
      (ex_channel\<lparr>preferred_staffing_buffer := Some (- 0.5)\<rparr>) None) = Num 3"
proof -
  let ?c0 = "ex_channel\<lparr>min_staffing_level := Some 0\<rparr>"
  let ?c1 = "ex_channel\<lparr>preferred_staffing_buffer := Some (- 0.5)\<rparr>"
  have v: "volume (ex_prediction x) = Num x" for x
    by (simp add: ex_prediction_def)
  have s0: "binary64 (or_default (shrinkage_factor ?c0) 0.25) \<noteq> 1"
    by (simp add: staffing_eval)
  have s1: "binary64 (or_default (shrinkage_factor ?c1) 0.25) \<noteq> 1"
    by (simp add: staffing_eval)
  have m0: "or_default (min_staffing_level ?c0) 1 = 1"
    by (simp add: or_default_def)
  have r0: "spec_required 0 ?c0 = 1"
    by (simp add: staffing_eval)
  have r1: "spec_required 20 ?c1 = 5"
    by (simp add: staffing_eval)
  have o1: "spec_optimal 20 ?c1 = 3"
    unfolding spec_optimal_def r1 by (simp add: staffing_eval)
  show ?thesis
    by (simp only: calculateRequiredAgents_finite [OF v s0] calculateRequiredAgents_finite [OF v s1]
        m0 r0 r1 o1) simp
qed

text \<open>
  C8. For every agent count \<open>a \<ge> 0\<close> and workload \<open>w \<ge> 0\<close>, with utilisation
  \<open>u = w / a\<close>: if \<open>u \<ge> 1\<close> the predicted service level is exactly 0.1 and the predicted
  wait is exactly 300 seconds; otherwise the service level is \<open>clamp(1 - u, 0.1, 0.99)\<close>
  and the wait is \<open>u * 60\<close>. With no agents \<open>u\<close> is Infinity for a positive workload
  (the overloaded branch) and NaN for workload 0 (both results NaN).
\<close>

theorem predicted_service_level_and_wait:
  assumes "0 \<le> a" and "0 \<le> w"
  shows
    "(if js_ge (js_div (Num w) (Num a)) (Num 1)
      then predictServiceLevel (Num a) (Num w) targetSeconds = Num 0.1 \<and>
           predictAverageWaitTime (Num a) (Num w) = Num 300
      else predictServiceLevel (Num a) (Num w) targetSeconds =
             js_max (Num 0.1) (js_min (Num 0.99) (js_sub (Num 1) (js_div (Num w) (Num a)))) \<and>
           predictAverageWaitTime (Num a) (Num w) = js_mul (js_div (Num w) (Num a)) (Num 60))"
proof (cases "js_ge (js_div (Num w) (Num a)) (Num 1)")
  case True
  then show ?thesis
    by (simp add: predictServiceLevel_def predictAverageWaitTime_def Let_def)
next
  case False
  have "js_max (Num 0) (js_mul (js_div (Num w) (Num a)) (Num 60))
          = js_mul (js_div (Num w) (Num a)) (Num 60)"
  proof (cases "a = 0")
    case True
    then show ?thesis using assms by (simp add: js_max_def)
  next
    case False
    then have "0 \<le> w / a * 60" using assms by simp
    then show ?thesis using False by (simp add: js_max_Num)
  qed
  with False show ?thesis
    by (simp add: predictServiceLevel_def predictAverageWaitTime_def Let_def)
qed

text \<open>At the overload boundary (5 erlangs on 5 agents) and below it (1 erlang on 4 agents).\<close>

theorem predicted_service_level_and_wait_witness:
  "predictServiceLevel (Num 5) (Num 5) (Num 20) = Num 0.1 \<and>
   predictAverageWaitTime (Num 5) (Num 5) = Num 300 \<and>
   predictServiceLevel (Num 4) (Num 1) (Num 20) = Num 0.75 \<and>
   predictAverageWaitTime (Num 4) (Num 1) = Num 15"
  using predicted_service_level_and_wait [of 5 5 "Num 20"]
    predicted_service_level_and_wait [of 4 1 "Num 20"]
  by (simp add: js_ge_Num js_max_Num js_min_Num js_sub_Num)

section \<open>Properties of the external factors\<close>

lemma holiday_loop_holidays:
  "holiday_loop holidays m d =
     (if (m, d) \<in> {(0, 1), (6, 4), (11, 25)} then Num 0.3 else Num 1.0)"
  by (simp add: holidays_def)

text \<open>
  C9 (as amended). \<open>getExternalFactors\<close> returns the holiday factor 0.3 exactly for the
  dates 1 January, 4 July and 25 December (months counted from 0) and 1.0 for every other
  date; the weather and special-event factors are always 1.0.
\<close>

theorem getExternalFactors_holiday:
  "getExternalFactors momentDate hour =
     \<lparr>holidayFactor =
        (if (month momentDate, date momentDate) \<in> {(0, 1), (6, 4), (11, 25)}
         then Num 0.3 else Num 1.0),
      weather = Num 1.0, specialEvent = Num 1.0\<rparr>"
  by (simp only: getExternalFactors_def getHolidayFactor_def holiday_loop_holidays Let_def)

text \<open>C9 as stated fails: 1 January 2024, a date other than 25 December, has the holiday
  factor 0.3.\<close>

theorem getExternalFactors_holiday_counterexample:
  "holidayFactor (getExternalFactors \<lparr>year = 2024, month = 0, date = 1, day = 1\<rparr> 10) = Num 0.3"
  by (simp add: getExternalFactors_def getHolidayFactor_def holidays_def)

section \<open>Properties of the schedule metrics\<close>

lemma foldl_add_sum_list:
  "foldl (\<lambda>sum x. sum + f x) (a::real) xs = a + sum_list (map f xs)"
  by (induction xs arbitrary: a) (simp_all add: add.assoc)

lemma or_default_zero: "or_default x (0::real) = (case x of None \<Rightarrow> 0 | Some c \<Rightarrow> c)"
  by (simp add: or_default_def split: option.split)

lemma calculateScheduleMetrics_constants:
  "calculateScheduleMetrics schedule shifts =
     \<lparr>serviceLevel = 0.85, coverage = 0.90,
      totalCost = (\<Sum>s\<leftarrow>shifts. case total_cost s of None \<Rightarrow> 0 | Some c \<Rightarrow> c),
      efficiency = 0.88\<rparr>"
  by (simp add: calculateScheduleMetrics_def foldl_add_sum_list or_default_zero)

section \<open>Properties of the break and lunch placement\<close>

lemma shift_hours_ge: "(calculateShiftHours s e \<ge> real n) = (e - s \<ge> 60 * int n)"
  unfolding calculateShiftHours_def by (simp add: le_divide_eq) linarith

lemma shift_hours_ge4: "(calculateShiftHours s e \<ge> 4) = (e - s \<ge> 240)"
  using shift_hours_ge [of 4 s e] by simp

lemma shift_hours_ge6: "(calculateShiftHours s e \<ge> 6) = (e - s \<ge> 360)"
  using shift_hours_ge [of 6 s e] by simp

lemma shift_hours_blocks: "\<lfloor>calculateShiftHours s e / 4\<rfloor> = (e - s) div 240"
proof -
  have "calculateShiftHours s e / 4 = real_of_int (e - s) / real_of_int 240"
    by (simp add: calculateShiftHours_def)
  then show ?thesis
    by (simp only: floor_divide_of_int_eq)
qed

lemma format_HHmm_int: "format_HHmm (real_of_int k) = k mod 1440"
  by (simp add: format_HHmm_def)

lemma format_HHmm_add: "format_HHmm (real_of_int a + real_of_int b) = (a + b) mod 1440"
  using format_HHmm_int [of "a + b"] by simp

lemma format_HHmm_half:
  "format_HHmm (real_of_int s + calculateShiftHours s e / 2 * 60) = (s + (e - s) div 2) mod 1440"
proof -
  have eq: "real_of_int s + calculateShiftHours s e / 2 * 60
              = real_of_int (e - s) / real_of_int 2 + real_of_int s"
    by (simp add: calculateShiftHours_def)
  have "\<lfloor>real_of_int (e - s) / real_of_int 2 + real_of_int s\<rfloor>
          = \<lfloor>real_of_int (e - s) / real_of_int 2\<rfloor> + s"
    by (rule floor_add_int [symmetric])
  also have "\<dots> = (e - s) div 2 + s"
    by (simp only: floor_divide_of_int_eq)
  finally show ?thesis
    unfolding format_HHmm_def eq by (simp add: add.commute)
qed

lemma generateBreaks_same_day:
  assumes "0 \<le> s" and "s < e" and "e < 1440"
  shows "generateBreaks s e c =
    (if 240 \<le> e - s then
       map (\<lambda>i. \<lparr>break_start_time = s + 240 * i,
                 break_end_time = (s + 240 * i + or_default (min_break_duration c) 15) mod 1440,
                 break_type = ''break'',
                 break_duration = or_default (min_break_duration c) 15\<rparr>)
         [1..(e - s) div 240]
     else [])"
proof (cases "240 \<le> e - s")
  case False
  then show ?thesis
    by (simp add: generateBreaks_def shift_hours_ge4)
next
  case True
  have start: "format_HHmm (real_of_int s + 240 * real_of_int i) = s + 240 * i"
    if "i \<in> set [1..(e - s) div 240]" for i
  proof -
    have "1 \<le> i" and "i \<le> (e - s) div 240"
      using that by simp_all
    then have "240 * i \<le> e - s"
      by (simp add: zdiv_mono1 le_div_geq) 
    then have "0 \<le> s + 240 * i" and "s + 240 * i < 1440"
      using assms \<open>1 \<le> i\<close> by linarith+
    moreover have "real_of_int s + 240 * real_of_int i = real_of_int (s + 240 * i)"
      by simp
    ultimately show ?thesis
      by (simp only: format_HHmm_int mod_pos_pos_trivial)
  qed
  show ?thesis
    using True
    by (simp add: generateBreaks_def shift_hours_ge4 shift_hours_blocks Let_def start
        format_HHmm_add cong: map_cong)
qed

lemma generateLunchBreak_same_day:
  assumes "0 \<le> s" and "s < e" and "e < 1440"
  shows "generateLunchBreak s e c =
    (if 360 \<le> e - s then
       Some \<lparr>break_start_time = s + (e - s) div 2,
             break_end_time = (s + (e - s) div 2 + or_default (lunch_break_duration c) 60) mod 1440,
             break_type = ''lunch'',
             break_duration = or_default (lunch_break_duration c) 60\<rparr>
     else None)"
proof -
  have "0 \<le> s + (e - s) div 2" and "s + (e - s) div 2 < 1440"
    using assms by linarith+
  then have mid: "(s + (e - s) div 2) mod 1440 = s + (e - s) div 2"
    by (rule mod_pos_pos_trivial)
  show ?thesis
    unfolding generateLunchBreak_def Let_def shift_hours_ge6 format_HHmm_half mid
      format_HHmm_add
    by simp
qed

lemmas break_eval = generateBreaks_def generateLunchBreak_def getDefaultConstraints_def
  calculateShiftHours_def format_HHmm_def or_default_def Let_def upto.simps

text \<open>
  C6 (as amended). For a same-day shift from \<open>s\<close> to \<open>e\<close> minutes after midnight: a shift
  of at least 4 hours gets one break per completed 4-hour block, \<open>floor(hours / 4)\<close> of
  them, and a shorter one none; a shift gets a lunch break exactly when it lasts at least
  6 hours; the lunch begins at the shift midpoint, rounded down to the minute, and lasts
  the configured duration (60 minutes when none is configured); and the lunch window lies
  strictly inside the shift when its duration is not negative and less than half the
  length of the shift. Where the breaks lie is not part of the statement.
\<close>

theorem breaks_and_lunch_placement:
  assumes "0 \<le> s" and "s < e" and "e < 1440"
  shows
    "length (generateBreaks s e c) =
       (if calculateShiftHours s e \<ge> 4 then nat \<lfloor>calculateShiftHours s e / 4\<rfloor> else 0) \<and>
     (generateLunchBreak s e c \<noteq> None) = (calculateShiftHours s e \<ge> 6) \<and>
     (\<forall>w. generateLunchBreak s e c = Some w \<longrightarrow>
        break_start_time w = s + (e - s) div 2 \<and>
        break_duration w = or_default (lunch_break_duration c) 60 \<and>
        break_end_time w = (break_start_time w + break_duration w) mod 1440 \<and>
        (0 \<le> break_duration w \<and> 2 * break_duration w < e - s \<longrightarrow>
           s < break_start_time w \<and> break_start_time w \<le> break_end_time w \<and>
           break_end_time w < e))"
proof (intro conjI allI impI)
  note b = generateBreaks_same_day [OF assms, of c]
  note l = generateLunchBreak_same_day [OF assms, of c]
  show "length (generateBreaks s e c) =
       (if calculateShiftHours s e \<ge> 4 then nat \<lfloor>calculateShiftHours s e / 4\<rfloor> else 0)"
    by (simp add: b shift_hours_ge4 shift_hours_blocks)
  show "(generateLunchBreak s e c \<noteq> None) = (calculateShiftHours s e \<ge> 6)"
    by (simp add: l shift_hours_ge6)
  {
    fix w assume w: "generateLunchBreak s e c = Some w"
    then have big: "360 \<le> e - s"
      and w_eq: "w = \<lparr>break_start_time = s + (e - s) div 2,
             break_end_time = (s + (e - s) div 2 + or_default (lunch_break_duration c) 60) mod 1440,
             break_type = ''lunch'',
             break_duration = or_default (lunch_break_duration c) 60\<rparr>"
      by (auto simp: l split: if_splits)
    show "break_start_time w = s + (e - s) div 2"
      by (simp add: w_eq)
    show "break_duration w = or_default (lunch_break_duration c) 60"
      by (simp add: w_eq)
    show "break_end_time w = (break_start_time w + break_duration w) mod 1440"
      by (simp add: w_eq)
    assume d: "0 \<le> break_duration w \<and> 2 * break_duration w < e - s"
    define d' where "d' = or_default (lunch_break_duration c) 60"
    have d0: "0 \<le> d'" and d2: "2 * d' < e - s"
      using d by (simp_all add: w_eq d'_def)
    have "0 \<le> s + (e - s) div 2 + d'" and "s + (e - s) div 2 + d' < 1440"
      using assms d0 d2 by linarith+
    then have m: "(s + (e - s) div 2 + d') mod 1440 = s + (e - s) div 2 + d'"
      by (rule mod_pos_pos_trivial)
    show "s < break_start_time w"
      using big by (simp add: w_eq)
    show "break_start_time w \<le> break_end_time w"
      using d0 by (simp add: w_eq d'_def[symmetric] m)
    show "break_end_time w < e"
      using d2 by (simp add: w_eq d'_def[symmetric] m)
  }
qed

text \<open>The amended statement on the shift 08:00 to 16:00 with the default constraints: two
  breaks, and a lunch from 12:00 to 13:00.\<close>

theorem breaks_and_lunch_placement_witness:
  "length (generateBreaks 480 960 getDefaultConstraints) = 2 \<and>
   (\<exists>w. generateLunchBreak 480 960 getDefaultConstraints = Some w \<and>
        break_start_time w = 720 \<and> break_end_time w = 780 \<and>
        480 < break_start_time w \<and> break_end_time w < 960)"
proof -
  note t = breaks_and_lunch_placement [of 480 960 getDefaultConstraints, simplified]
  have h: "calculateShiftHours 480 960 = 8"
    by (simp add: calculateShiftHours_def)
  have d: "or_default (lunch_break_duration getDefaultConstraints) 60 = 60"
    by (simp add: getDefaultConstraints_def or_default_def)
  from t have len: "length (generateBreaks 480 960 getDefaultConstraints) = 2"
    by (simp add: h)
  moreover from t obtain w where w: "generateLunchBreak 480 960 getDefaultConstraints = Some w"
    by (auto simp: h)
  moreover from t w d have "break_start_time w = 720 \<and> break_end_time w = 780 \<and>
      480 < break_start_time w \<and> break_end_time w < 960"
    by simp
  ultimately show ?thesis
    by blast
qed

text \<open>
  C6 as stated fails. On the shift 08:00 to 16:00 with the default constraints the lunch
  runs from 12:00 to 13:00: it begins at the midpoint 12:00 instead of being centred there.
  And on the shift 08:00 to 14:00 with a lunch of 240 minutes configured the lunch runs
  from 11:00 to 15:00, past the end of the shift.
\<close>

theorem breaks_and_lunch_placement_counterexample:
  "generateLunchBreak 480 960 getDefaultConstraints =
     Some \<lparr>break_start_time = 720, break_end_time = 780, break_type = ''lunch'', break_duration = 60\<rparr> \<and>
   \<not> window_centered 480 960
       \<lparr>break_start_time = 720, break_end_time = 780, break_type = ''lunch'', break_duration = 60\<rparr> \<and>
   generateLunchBreak 480 840 (getDefaultConstraints\<lparr>lunch_break_duration := Some 240\<rparr>) =
     Some \<lparr>break_start_time = 660, break_end_time = 900, break_type = ''lunch'', break_duration = 240\<rparr> \<and>
   \<not> window_inside_shift 480 840
       \<lparr>break_start_time = 660, break_end_time = 900, break_type = ''lunch'', break_duration = 240\<rparr>"
  by (simp add: break_eval window_inside_shift_def window_centered_def)

text \<open>
  A defect outside the amended statement: the last break of a shift whose length is a
  multiple of four hours begins at the end of the shift. The shift 08:00 to 16:00 with the
  default constraints gets its second break from 16:00 to 16:30.
\<close>

lemma generateBreaks_break_at_shift_end:
  "generateBreaks 480 960 getDefaultConstraints =
     [\<lparr>break_start_time = 720, break_end_time = 750, break_type = ''break'', break_duration = 30\<rparr>,
      \<lparr>break_start_time = 960, break_end_time = 990, break_type = ''break'', break_duration = 30\<rparr>] \<and>
   \<not> window_inside_shift 480 960
       \<lparr>break_start_time = 960, break_end_time = 990, break_type = ''break'', break_duration = 30\<rparr>"
  by (simp add: break_eval window_inside_shift_def)

section \<open>Properties of the agent assignment\<close>

lemma findSuitableAgents_subset:
  "findSuitableAgents agents pattern agentWorkload constraints = Inr xs \<Longrightarrow> set xs \<subseteq> set agents"
  by (induction agents arbitrary: xs) (auto split: option.splits sum.splits if_splits)

lemma findSuitableAgents_total:
  "\<forall>a \<in> set agents. agentWorkload (agent_id a) \<noteq> None \<Longrightarrow>
   \<exists>xs. findSuitableAgents agents pattern agentWorkload constraints = Inr xs"
  by (induction agents) (auto split: option.splits sum.splits)

lemma assign_loop_total:
  "\<forall>a \<in> set sortedAgents. agentWorkload (agent_id a) \<noteq> None \<Longrightarrow>
   \<exists>res. assign_loop patterns sortedAgents constraints agentWorkload assignments = Inr res"
proof (induction patterns arbitrary: agentWorkload assignments)
  case Nil
  then show ?case by simp
next
  case (Cons pattern patterns)
  from findSuitableAgents_total [OF Cons.prems] obtain xs where
    xs: "findSuitableAgents sortedAgents pattern agentWorkload constraints = Inr xs"
    by blast
  show ?case
  proof (cases xs)
    case Nil
    with xs Cons.IH [OF Cons.prems] show ?thesis by simp
  next
    case (Cons selectedAgent others)
    with xs findSuitableAgents_subset [OF xs] have "selectedAgent \<in> set sortedAgents"
      by auto
    with Cons.prems obtain w where w: "agentWorkload (agent_id selectedAgent) = Some w"
      by auto
    have "\<forall>a \<in> set sortedAgents.
            (agentWorkload(agent_id selectedAgent \<mapsto> update_workload w pattern)) (agent_id a) \<noteq> None"
      using Cons.prems by simp
    then have "\<exists>res. assign_loop patterns sortedAgents constraints
                 (agentWorkload(agent_id selectedAgent \<mapsto> update_workload w pattern))
                 (assignments @ [new_assignment selectedAgent pattern]) = Inr res"
      by (rule Cons.IH)
    with xs Cons w show ?thesis
      by (simp del: fun_upd_apply)
  qed
qed

lemma initial_workload_fold:
  "foldl (\<lambda>m a. m(agent_id a \<mapsto> w0)) m0 agents k \<noteq> None \<longleftrightarrow>
     (m0 k \<noteq> None \<or> k \<in> agent_id ` set agents)"
  by (induction agents arbitrary: m0) auto

lemma initial_workload_defined:
  "a \<in> set availableAgents \<Longrightarrow> initial_workload availableAgents (agent_id a) \<noteq> None"
  unfolding initial_workload_def by (subst initial_workload_fold) simp

lemma assignAgentsToShifts_total:
  "\<exists>assignments. assignAgentsToShifts shiftPatterns availableAgents constraints = Inr assignments"
  unfolding assignAgentsToShifts_def Let_def
  by (rule assign_loop_total) (simp add: sortAgentsBySuitability_def initial_workload_defined)


lemma assign_loop_agents:
  "assign_loop patterns sortedAgents constraints agentWorkload assignments = Inr res \<Longrightarrow>
   agentId ` set res \<subseteq> agentId ` set assignments \<union> agent_id ` set sortedAgents"
proof (induction patterns arbitrary: agentWorkload assignments)
  case Nil
  then show ?case by auto
next
  case (Cons pattern patterns)
  show ?case
  proof (cases "findSuitableAgents sortedAgents pattern agentWorkload constraints")
    case (Inl e)
    with Cons.prems show ?thesis by simp
  next
    case (Inr xs)
    show ?thesis
    proof (cases xs)
      case Nil
      with Inr Cons.prems Cons.IH show ?thesis by simp
    next
      case (Cons selectedAgent others)
      with Inr findSuitableAgents_subset [OF Inr] have sel: "selectedAgent \<in> set sortedAgents"
        by auto
      from Cons.prems Inr Cons obtain w where
        "assign_loop patterns sortedAgents constraints
           (agentWorkload(agent_id selectedAgent \<mapsto> update_workload w pattern))
           (assignments @ [new_assignment selectedAgent pattern]) = Inr res"
        by (auto split: option.splits)
      from Cons.IH [OF this] sel show ?thesis
        by (auto simp: new_assignment_def)
    qed
  qed
qed

lemma generateDailyShifts_time_off:
  assumes "generateDailyShifts dateString agents forecasts timeOffRequests constraints = Inr shifts"
    and "s \<in> set shifts" and "t \<in> set timeOffRequests" and "timeoff_status t = Approved"
  shows "shift_agent_id s \<noteq> timeoff_agent_id t"
proof -
  define unavailable where
    "unavailable = map timeoff_agent_id (filter (\<lambda>t. timeoff_status t = Approved) timeOffRequests)"
  define available where "available = filter (\<lambda>a. agent_id a \<notin> set unavailable) agents"
  have t: "timeoff_agent_id t \<in> set unavailable"
    using assms(3,4) by (auto simp: unavailable_def)
  show ?thesis
  proof (cases "available = []")
    case True
    with assms(1,2) show ?thesis
      by (simp add: generateDailyShifts_def Let_def unavailable_def available_def)
  next
    case False
    with assms(1) obtain assignments where
      a: "assignAgentsToShifts
            (generateShiftPatterns (calculateHourlyRequirements forecasts) constraints)
            available constraints = Inr assignments"
      and sh: "shift_agent_id ` set shifts = agentId ` set assignments"
      by (auto simp: generateDailyShifts_def Let_def unavailable_def available_def image_image
          split: sum.splits)
    from a have "agentId ` set assignments \<subseteq> agent_id ` set available"
      unfolding assignAgentsToShifts_def Let_def
      by (auto dest!: assign_loop_agents simp: sortAgentsBySuitability_def)
    with sh assms(2) have "shift_agent_id s \<in> agent_id ` set available"
      by auto
    then have "shift_agent_id s \<notin> set unavailable"
      by (auto simp: available_def)
    with t show ?thesis by auto
  qed
qed

lemma generateDailyShifts_time_off_covering:
  assumes "generateDailyShifts dateString agents forecasts
             (timeOffRequests_on dateString timeOffRequests) constraints = Inr shifts"
    and "s \<in> set shifts" and "t \<in> set timeOffRequests" and "timeoff_status t = Approved"
    and "timeoff_start_date t \<le> dateString" and "dateString \<le> timeoff_end_date t"
  shows "shift_agent_id s \<noteq> timeoff_agent_id t"
proof -
  from assms(3,5,6) have "t \<in> set (timeOffRequests_on dateString timeOffRequests)"
    by (simp add: timeOffRequests_on_def)
  from generateDailyShifts_time_off [OF assms(1,2) this assms(4)] show ?thesis .
qed

lemma findSuitableAgents_suitable:
  "findSuitableAgents agents pattern agentWorkload constraints = Inr xs \<Longrightarrow> a \<in> set xs \<Longrightarrow>
   \<exists>w. agentWorkload (agent_id a) = Some w \<and> suitable w pattern constraints"
  by (induction agents arbitrary: xs) (auto split: option.splits sum.splits if_splits)

lemma suitable_limits:
  assumes "suitable w pattern constraints"
  shows "\<not> gt_undefined
            (hoursAssigned w + calculateShiftHours (pattern_start pattern) (pattern_end pattern))
            (max_hours_per_week constraints)"
    and "lastShiftEnd w = Some lastEnd \<Longrightarrow>
         \<not> lt_undefined (calculateTimeBetween lastEnd (pattern_start pattern))
             (min_time_between_shifts constraints)"
  using assms by (auto simp: suitable_def Let_def split: if_splits)

lemma assigned_hours_snoc:
  "assigned_hours i (assignments @ [a]) =
     (if agentId a = i
      then assigned_hours i assignments + calculateShiftHours (startTime a) (endTime a)
      else assigned_hours i assignments)"
  by (simp add: assigned_hours_def)

lemma last_shift_end_snoc:
  "last_shift_end i (assignments @ [a]) =
     (if agentId a = i then Some (endTime a) else last_shift_end i assignments)"
  by (simp add: last_shift_end_def)

lemma workload_tracks_step:
  assumes "workload_tracks agentWorkload assignments"
    and "agentWorkload (agent_id selectedAgent) = Some w"
  shows "workload_tracks (agentWorkload(agent_id selectedAgent \<mapsto> update_workload w pattern))
           (assignments @ [new_assignment selectedAgent pattern])"
  using assms
  by (auto simp: workload_tracks_def assigned_hours_snoc last_shift_end_snoc
      update_workload_def new_assignment_def Let_def)

lemma assign_loop_respects_limits:
  "assign_loop patterns sortedAgents constraints agentWorkload assignments = Inr res \<Longrightarrow>
   workload_tracks agentWorkload assignments \<Longrightarrow>
   \<exists>ext. res = assignments @ ext \<and> respects_limits constraints assignments ext"
proof (induction patterns arbitrary: agentWorkload assignments)
  case Nil
  then show ?case by simp
next
  case (Cons pattern patterns)
  show ?case
  proof (cases "findSuitableAgents sortedAgents pattern agentWorkload constraints")
    case (Inl e)
    with Cons.prems show ?thesis by simp
  next
    case (Inr xs)
    show ?thesis
    proof (cases xs)
      case Nil
      with Inr Cons.prems Cons.IH show ?thesis by simp
    next
      case (Cons selectedAgent others)
      from findSuitableAgents_suitable [OF Inr, of selectedAgent] Cons obtain w where
        w: "agentWorkload (agent_id selectedAgent) = Some w"
        and ok: "suitable w pattern constraints"
        by auto
      define new where "new = new_assignment selectedAgent pattern"
      have new: "agentId new = agent_id selectedAgent" "startTime new = pattern_start pattern"
        "endTime new = pattern_end pattern"
        by (simp_all add: new_def new_assignment_def Let_def)
      from Cons.prems(1) Inr Cons w have run:
        "assign_loop patterns sortedAgents constraints
           (agentWorkload(agent_id selectedAgent \<mapsto> update_workload w pattern))
           (assignments @ [new]) = Inr res"
        by (simp add: new_def del: fun_upd_apply)
      have "workload_tracks (agentWorkload(agent_id selectedAgent \<mapsto> update_workload w pattern))
              (assignments @ [new])"
        unfolding new_def by (rule workload_tracks_step [OF Cons.prems(2) w])
      from Cons.IH [OF run this] obtain ext where
        ext: "res = (assignments @ [new]) @ ext"
        and lim: "respects_limits constraints (assignments @ [new]) ext"
        by blast
      from Cons.prems(2) w have
        h: "hoursAssigned w = assigned_hours (agent_id selectedAgent) assignments"
        and l: "lastShiftEnd w = last_shift_end (agent_id selectedAgent) assignments"
        by (auto simp: workload_tracks_def)
      have "respects_limits constraints assignments (new # ext)"
        using suitable_limits [OF ok] lim
        by (auto simp: new h l split: option.splits)
      with ext show ?thesis by simp
    qed
  qed
qed

lemma initial_workload_value:
  "initial_workload availableAgents i = Some w \<Longrightarrow>
   w = \<lparr>hoursAssigned = 0, shiftsAssigned = 0, lastShiftEnd = None\<rparr>"
proof -
  have "foldl (\<lambda>m a. m(agent_id a \<mapsto> w0)) m0 agents i = Some w \<Longrightarrow>
        w = w0 \<or> m0 i = Some w" for w0 m0 and agents :: "agent list"
    by (induction agents rule: rev_induct) (auto split: if_splits)
  from this [of _ Map.empty] show "initial_workload availableAgents i = Some w \<Longrightarrow>
   w = \<lparr>hoursAssigned = 0, shiftsAssigned = 0, lastShiftEnd = None\<rparr>"
    unfolding initial_workload_def by fastforce
qed

lemma assignAgentsToShifts_respects_limits:
  assumes "assignAgentsToShifts shiftPatterns availableAgents constraints = Inr assignments"
  shows "respects_limits constraints [] assignments"
proof -
  have "workload_tracks (initial_workload availableAgents) []"
    by (auto simp: workload_tracks_def assigned_hours_def last_shift_end_def
        dest: initial_workload_value)
  from assign_loop_respects_limits [OF _ this] assms show ?thesis
    by (auto simp: assignAgentsToShifts_def Let_def)
qed


lemmas assignment_eval =
  generateDailyShifts_def generateShiftPatterns_def calculateHourlyRequirements_def
  findPeakHours_def calculateShiftPriority_def assignAgentsToShifts_def initial_workload_def
  sortAgentsBySuitability_def standardShifts_def partTimeShifts_def ex_agent_def
  getDefaultConstraints_def suitable_def calculateShiftHours_def calculateTimeBetween_def
  gt_undefined_def lt_undefined_def new_assignment_def update_workload_def
  selectPrimaryChannel_def selectSecondaryChannels_def getRequiredSkills_def
  calculateExpectedVolume_def Let_def

text \<open>
  C7 fails on the code. For one day with the single agent \<open>a1\<close>, no forecasts, no time
  off and the default constraints (at most 40 hours, at least 8 hours between shifts), the
  agent is given five overlapping shifts on that same day: 08:00-16:00, 09:00-17:00,
  10:00-18:00, 12:00-20:00 and 14:00-22:00. The filter measures the time from 16:00 to
  09:00 on the following day, 17 hours; on the day the shifts are created for, the second
  shift begins 7 hours before the first one ends.
\<close>

theorem generateDailyShifts_double_booking:
  "(\<exists>shifts.
      generateDailyShifts 0 [ex_agent ''a1''] [] [] getDefaultConstraints = Inr shifts \<and>
      map (\<lambda>s. (shift_agent_id s, shift_date s, start_time s, end_time s)) shifts =
        [(''a1'', 0, 480, 960), (''a1'', 0, 540, 1020), (''a1'', 0, 600, 1080),
         (''a1'', 0, 720, 1200), (''a1'', 0, 840, 1320)]) \<and>
   calculateTimeBetween 960 540 = 17 \<and>
   calculateShiftHours 960 540 = - 7"
  by (simp add: assignment_eval)


section \<open>Properties of the hourly forecast generation\<close>

lemma beforeValidate_fields:
  "channel_id (beforeValidate f) = channel_id f"
  "skill_id (beforeValidate f) = skill_id f"
  "forecast_date (beforeValidate f) = forecast_date f"
  "forecast_hour (beforeValidate f) = forecast_hour f"
  "predicted_volume (beforeValidate f) = predicted_volume f"
  by (simp_all add: beforeValidate_def Let_def)

lemma hourly_attributes_fields:
  "channel_id (hourly_attributes db channelId channel targetDate skillId hour) = Some channelId"
  "skill_id (hourly_attributes db channelId channel targetDate skillId hour) = skillId"
  "forecast_date (hourly_attributes db channelId channel targetDate skillId hour) = targetDate"
  "forecast_hour (hourly_attributes db channelId channel targetDate skillId hour) = hour"
  "predicted_volume (hourly_attributes db channelId channel targetDate skillId hour) =
     volume (calculatePredictedVolume (getHistoricalData db channelId hour skillId)
               (getSeasonalFactors targetDate hour) (getExternalFactors targetDate hour))"
  by (simp_all add: hourly_attributes_def Let_def)

lemma hourly_forecast_fields:
  "channel_id (hourly_forecast db channelId channel targetDate skillId hour) = None"
  "skill_id (hourly_forecast db channelId channel targetDate skillId hour) = None"
  "forecast_date (hourly_forecast db channelId channel targetDate skillId hour) = targetDate"
  "forecast_hour (hourly_forecast db channelId channel targetDate skillId hour) = hour"
  "predicted_volume (hourly_forecast db channelId channel targetDate skillId hour) =
     volume (calculatePredictedVolume (getHistoricalData db channelId hour skillId)
               (getSeasonalFactors targetDate hour) (getExternalFactors targetDate hour))"
  by (simp_all add: hourly_forecast_def Forecast_build_def beforeValidate_fields
      hourly_attributes_fields)

text \<open>The unique index refuses a second row with the same key when the key has no NULL,
  and never refuses a row whose channel column is NULL.\<close>

lemma unique_forecast_period_enforced:
  "r \<in> set rows \<Longrightarrow> channel_id r \<noteq> None \<Longrightarrow> skill_id r \<noteq> None \<Longrightarrow>
   unique_forecast_period rows r"
  by (auto simp: unique_forecast_period_def same_period_def list_ex_iff)

lemma unique_forecast_period_null:
  "channel_id forecast = None \<Longrightarrow> \<not> unique_forecast_period rows forecast"
  by (auto simp: unique_forecast_period_def same_period_def list_ex_iff)

lemma Forecast_create_cases:
  "Forecast_create db rows (hourly_attributes db channelId channel targetDate skillId hour) =
     (case rejectCreate db (hourly_forecast db channelId channel targetDate skillId hour) of
        Some e \<Rightarrow> Inl (StorageError e)
      | None \<Rightarrow>
          Inr (hourly_forecast db channelId channel targetDate skillId hour,
               rows @ [hourly_forecast db channelId channel targetDate skillId hour]))"
  unfolding Forecast_create_def Let_def hourly_forecast_def [symmetric]
  by (simp add: unique_forecast_period_null hourly_forecast_fields)

lemma batch_forecasts_Cons:
  "batch_forecasts db channelId channel targetDate skillId (hour # hours) =
     (if isOperatingHour hour channel
      then hourly_forecast db channelId channel targetDate skillId hour #
           batch_forecasts db channelId channel targetDate skillId hours
      else batch_forecasts db channelId channel targetDate skillId hours)"
  by (simp add: batch_forecasts_def)

lemma batch_forecasts_append:
  "batch_forecasts db channelId channel targetDate skillId (hours1 @ hours2) =
     batch_forecasts db channelId channel targetDate skillId hours1 @
     batch_forecasts db channelId channel targetDate skillId hours2"
  by (simp add: batch_forecasts_def)

lemma hourly_loop_Inr:
  "hourly_loop db channelId channel targetDate skillId hours forecasts rows = (Inr res, rows') \<Longrightarrow>
   res = forecasts @ batch_forecasts db channelId channel targetDate skillId hours \<and>
   rows' = rows @ batch_forecasts db channelId channel targetDate skillId hours \<and>
   (\<forall>hour \<in> set hours. isOperatingHour hour channel \<longrightarrow>
      rejectCreate db (hourly_forecast db channelId channel targetDate skillId hour) = None)"
proof (induction hours arbitrary: forecasts rows)
  case Nil
  then show ?case by (simp add: batch_forecasts_def)
next
  case (Cons hour hours)
  show ?case
  proof (cases "isOperatingHour hour channel")
    case False
    with Cons show ?thesis by (simp add: batch_forecasts_Cons)
  next
    case True
    let ?f = "hourly_forecast db channelId channel targetDate skillId hour"
    from Cons.prems True have acc: "rejectCreate db ?f = None"
      by (simp add: Forecast_create_cases split: option.splits)
    with Cons.prems True have
      "hourly_loop db channelId channel targetDate skillId hours (forecasts @ [?f]) (rows @ [?f])
         = (Inr res, rows')"
      by (simp add: Forecast_create_cases)
    from Cons.IH [OF this] True acc show ?thesis
      by (simp add: batch_forecasts_Cons)
  qed
qed

lemma hourly_loop_accepted:
  "\<forall>hour \<in> set hours. isOperatingHour hour channel \<longrightarrow>
     rejectCreate db (hourly_forecast db channelId channel targetDate skillId hour) = None \<Longrightarrow>
   hourly_loop db channelId channel targetDate skillId hours forecasts rows =
     (Inr (forecasts @ batch_forecasts db channelId channel targetDate skillId hours),
      rows @ batch_forecasts db channelId channel targetDate skillId hours)"
proof (induction hours arbitrary: forecasts rows)
  case Nil
  then show ?case by (simp add: batch_forecasts_def)
next
  case (Cons hour hours)
  then show ?case
    by (simp add: batch_forecasts_Cons Forecast_create_cases)
qed

lemma hourly_loop_accepting:
  "\<forall>forecast. rejectCreate db forecast = None \<Longrightarrow>
   hourly_loop db channelId channel targetDate skillId hours forecasts rows =
     (Inr (forecasts @ batch_forecasts db channelId channel targetDate skillId hours),
      rows @ batch_forecasts db channelId channel targetDate skillId hours)"
  by (rule hourly_loop_accepted) simp

lemma hourly_loop_error:
  "fst (hourly_loop db channelId channel targetDate skillId hours forecasts rows) = Inl e \<Longrightarrow>
   \<exists>msg. e = StorageError msg"
proof (induction hours arbitrary: forecasts rows)
  case Nil
  then show ?case by simp
next
  case (Cons hour hours)
  then show ?case
    by (auto simp: Forecast_create_cases split: if_splits option.splits)
qed

lemma hourly_loop_rejected:
  assumes "hour \<in> set hours" and "isOperatingHour hour channel"
    and "rejectCreate db (hourly_forecast db channelId channel targetDate skillId hour) = Some e"
  shows "\<exists>msg. fst (hourly_loop db channelId channel targetDate skillId hours forecasts rows)
           = Inl (StorageError msg)"
  using assms(1)
proof (induction hours arbitrary: forecasts rows)
  case Nil
  then show ?case by simp
next
  case (Cons h hours)
  show ?case
  proof (cases "h = hour")
    case True
    with assms(2,3) show ?thesis
      by (simp add: Forecast_create_cases)
  next
    case False
    with Cons.prems have "hour \<in> set hours" by simp
    from Cons.IH [OF this] show ?thesis
      by (simp add: Forecast_create_cases split: option.splits)
  qed
qed

text \<open>The first write that is refused ends the loop: the rows of the hours before it are
  stored, and no later hour is tried.\<close>

lemma hourly_loop_refused:
  assumes "isOperatingHour hour channel"
    and "rejectCreate db (hourly_forecast db channelId channel targetDate skillId hour) = Some e"
  shows "\<forall>h \<in> set earlier. isOperatingHour h channel \<longrightarrow>
           rejectCreate db (hourly_forecast db channelId channel targetDate skillId h) = None \<Longrightarrow>
         hourly_loop db channelId channel targetDate skillId (earlier @ hour # later) forecasts rows =
           (Inl (StorageError e),
            rows @ batch_forecasts db channelId channel targetDate skillId earlier)"
proof (induction earlier arbitrary: forecasts rows)
  case Nil
  with assms show ?case
    by (simp add: Forecast_create_cases batch_forecasts_def)
next
  case (Cons h earlier)
  then show ?case
    by (simp add: Forecast_create_cases batch_forecasts_Cons)
qed

lemma hours_split: "hour < 24 \<Longrightarrow> [0..<24] = [0..<hour] @ hour # [Suc hour..<24]"
  using upt_add_eq_append [of 0 hour "24 - hour"] upt_conv_Cons [of hour 24] by simp

lemma batch_forecasts_hours:
  "map forecast_hour (batch_forecasts db channelId channel targetDate skillId hours) =
     filter (\<lambda>hour. isOperatingHour hour channel) hours"
  by (induction hours) (simp_all add: batch_forecasts_def hourly_forecast_fields)

lemma batch_forecasts_history:
  "\<forall>hour. findHistory db1 channelId hour skillId = findHistory db2 channelId hour skillId \<Longrightarrow>
   batch_forecasts db1 channelId channel targetDate skillId hours =
   batch_forecasts db2 channelId channel targetDate skillId hours"
  by (simp add: batch_forecasts_def hourly_forecast_def hourly_attributes_def
      getHistoricalData_def)

lemma hours_of_day:
  "[0..<24] =
     [0, 1, 2, 3, 4, 5, 6, 7, 8, 9, 10, 11, 12, 13, 14, 15, 16, 17, 18, 19, 20, 21, 22, 23]"
  by code_simp

lemma ex_operating_hours:
  "filter (\<lambda>hour. isOperatingHour hour ex_short_channel) [0..<24] = [8, 9, 10]"
  by (simp add: hours_of_day isOperatingHour_def ex_short_channel_def ex_channel_def Let_def)

lemma ex_operating_hour:
  "isOperatingHour hour ex_short_channel \<longleftrightarrow> 8 \<le> hour \<and> hour < 11"
  by (simp add: isOperatingHour_def ex_short_channel_def ex_channel_def Let_def)

lemma ex_db_fields:
  "findChannel ex_db ''voice'' = Inr (Some ex_short_channel)"
  "findChannel ex_db ''email'' = Inr None"
  "findHistory ex_db channelId hour skillId = Inl ''connection lost''"
  "rejectCreate ex_db forecast = None"
  "findChannel ex_db_write_fails = findChannel ex_db"
  "findHistory ex_db_write_fails = findHistory ex_db"
  "rejectCreate ex_db_write_fails forecast =
     (if forecast_hour forecast = 9 then Some ''write failed'' else None)"
  by (simp_all add: ex_db_def ex_db_write_fails_def)

lemma ex_db_strict_fields:
  "findChannel ex_db_strict = findChannel ex_db"
  "findHistory ex_db_strict = findHistory ex_db"
  "rejectCreate ex_db_strict forecast =
     (if predicted_volume forecast = NaN then Some ''validation'' else None)"
  by (simp_all add: ex_db_def ex_db_strict_def)

lemma batch_forecasts_fallback:
  assumes "\<forall>hour. \<exists>e. findHistory db channelId hour skillId = Inl e"
  shows "map predicted_volume (batch_forecasts db channelId channel targetDate skillId hours) =
           map (\<lambda>hour. Num 10) (filter (\<lambda>hour. isOperatingHour hour channel) hours)"
proof -
  have "getHistoricalData db channelId hour skillId = []" for hour
  proof -
    from assms obtain e where "findHistory db channelId hour skillId = Inl e"
      by blast
    then show ?thesis
      by (simp add: getHistoricalData_def)
  qed
  then show ?thesis
    by (simp add: batch_forecasts_def hourly_forecast_fields calculatePredictedVolume_def comp_def)
qed

lemma generateHourlyForecasts_Inr:
  assumes "fst (generateHourlyForecasts db rows channelId targetDate skillId) = Inr forecasts"
  shows "\<exists>channel. findChannel db channelId = Inr (Some channel) \<and>
           generateHourlyForecasts db rows channelId targetDate skillId =
             (Inr forecasts, rows @ forecasts) \<and>
           forecasts = batch_forecasts db channelId channel targetDate skillId [0..<24] \<and>
           (\<forall>hour \<in> set [0..<24]. isOperatingHour hour channel \<longrightarrow>
              rejectCreate db (hourly_forecast db channelId channel targetDate skillId hour) = None)"
proof (cases "findChannel db channelId")
  case (Inl e)
  with assms show ?thesis by (simp add: generateHourlyForecasts_def)
next
  case (Inr found)
  show ?thesis
  proof (cases found)
    case None
    with Inr assms show ?thesis by (simp add: generateHourlyForecasts_def)
  next
    case (Some channel)
    with Inr assms have
      "fst (hourly_loop db channelId channel targetDate skillId [0..<24] [] rows) = Inr forecasts"
      by (simp add: generateHourlyForecasts_def)
    then obtain rows' where l:
      "hourly_loop db channelId channel targetDate skillId [0..<24] [] rows = (Inr forecasts, rows')"
      by (cases "hourly_loop db channelId channel targetDate skillId [0..<24] [] rows") simp
    from hourly_loop_Inr [OF l] have
      f: "forecasts = batch_forecasts db channelId channel targetDate skillId [0..<24]"
      and r: "rows' = rows @ batch_forecasts db channelId channel targetDate skillId [0..<24]"
      and a: "\<forall>hour \<in> set [0..<24]. isOperatingHour hour channel \<longrightarrow>
              rejectCreate db (hourly_forecast db channelId channel targetDate skillId hour) = None"
      by simp_all
    have "generateHourlyForecasts db rows channelId targetDate skillId =
             (Inr forecasts, rows @ forecasts)"
      using l by (simp add: generateHourlyForecasts_def Inr Some r f [symmetric])
    with Inr Some f a show ?thesis
      by blast
  qed
qed

text \<open>
  C4 (as amended). The batch fails with the channel-not-found error exactly when the
  channel does not exist, and then nothing is stored. A failing historical-data read is
  an empty history: the hour is not skipped, its forecast is computed from the
  empty-history fallback. A batch that returns forecasts returns one for every operating
  hour and has stored them, and it does so whenever no write is refused, whatever the
  history reads do. A write that is refused for an operating hour makes the whole batch
  fail with a storage error; the batch fails with the error of the first write that is
  refused, the rows of the operating hours before that one stay stored, and no row is
  written for that hour or a later one.
\<close>

theorem generateHourlyForecasts_failures:
  "(fst (generateHourlyForecasts db rows channelId targetDate skillId) = Inl ChannelNotFound
      \<longleftrightarrow> findChannel db channelId = Inr None) \<and>
   (findChannel db channelId = Inr None \<longrightarrow>
      snd (generateHourlyForecasts db rows channelId targetDate skillId) = rows) \<and>
   (\<forall>hour e. findHistory db channelId hour skillId = Inl e \<longrightarrow>
      getHistoricalData db channelId hour skillId = []) \<and>
   (\<forall>channel forecasts.
      findChannel db channelId = Inr (Some channel) \<and>
      fst (generateHourlyForecasts db rows channelId targetDate skillId) = Inr forecasts \<longrightarrow>
        forecasts = batch_forecasts db channelId channel targetDate skillId [0..<24] \<and>
        snd (generateHourlyForecasts db rows channelId targetDate skillId) = rows @ forecasts) \<and>
   (\<forall>channel.
      findChannel db channelId = Inr (Some channel) \<and>
      (\<forall>forecast. rejectCreate db forecast = None) \<longrightarrow>
        generateHourlyForecasts db rows channelId targetDate skillId =
          (Inr (batch_forecasts db channelId channel targetDate skillId [0..<24]),
           rows @ batch_forecasts db channelId channel targetDate skillId [0..<24])) \<and>
   (\<forall>channel hour e.
      findChannel db channelId = Inr (Some channel) \<and> hour < 24 \<and>
      isOperatingHour hour channel \<and>
      rejectCreate db (hourly_forecast db channelId channel targetDate skillId hour) = Some e
      \<longrightarrow> (\<exists>msg. fst (generateHourlyForecasts db rows channelId targetDate skillId) =
                  Inl (StorageError msg))) \<and>
   (\<forall>channel hour e.
      findChannel db channelId = Inr (Some channel) \<and> hour < 24 \<and>
      isOperatingHour hour channel \<and>
      rejectCreate db (hourly_forecast db channelId channel targetDate skillId hour) = Some e \<and>
      (\<forall>h < hour. isOperatingHour h channel \<longrightarrow>
         rejectCreate db (hourly_forecast db channelId channel targetDate skillId h) = None)
      \<longrightarrow> generateHourlyForecasts db rows channelId targetDate skillId =
            (Inl (StorageError e),
             rows @ batch_forecasts db channelId channel targetDate skillId [0..<hour]))"
proof (intro conjI allI impI)
  show "fst (generateHourlyForecasts db rows channelId targetDate skillId) = Inl ChannelNotFound
      \<longleftrightarrow> findChannel db channelId = Inr None"
    by (auto simp: generateHourlyForecasts_def split: sum.splits option.splits
        dest: hourly_loop_error)
next
  assume "findChannel db channelId = Inr None"
  then show "snd (generateHourlyForecasts db rows channelId targetDate skillId) = rows"
    by (simp add: generateHourlyForecasts_def)
next
  fix hour e assume "findHistory db channelId hour skillId = Inl e"
  then show "getHistoricalData db channelId hour skillId = []"
    by (simp add: getHistoricalData_def)
next
  fix channel forecasts
  assume a: "findChannel db channelId = Inr (Some channel) \<and>
      fst (generateHourlyForecasts db rows channelId targetDate skillId) = Inr forecasts"
  then have ch: "findChannel db channelId = Inr (Some channel)"
    and r: "fst (generateHourlyForecasts db rows channelId targetDate skillId) = Inr forecasts"
    by simp_all
  from generateHourlyForecasts_Inr [OF r] ch
  show "forecasts = batch_forecasts db channelId channel targetDate skillId [0..<24]"
    and "snd (generateHourlyForecasts db rows channelId targetDate skillId) = rows @ forecasts"
    by auto
next
  fix channel
  assume "findChannel db channelId = Inr (Some channel) \<and>
      (\<forall>forecast. rejectCreate db forecast = None)"
  then show "generateHourlyForecasts db rows channelId targetDate skillId =
          (Inr (batch_forecasts db channelId channel targetDate skillId [0..<24]),
           rows @ batch_forecasts db channelId channel targetDate skillId [0..<24])"
    by (elim conjE) (simp add: generateHourlyForecasts_def hourly_loop_accepting)
next
  fix channel hour e
  assume a: "findChannel db channelId = Inr (Some channel) \<and> hour < 24 \<and>
      isOperatingHour hour channel \<and>
      rejectCreate db (hourly_forecast db channelId channel targetDate skillId hour) = Some e"
  then have "hour \<in> set [0..<24]" by simp
  from a have ch: "findChannel db channelId = Inr (Some channel)"
    and op: "isOperatingHour hour channel"
    and rej: "rejectCreate db (hourly_forecast db channelId channel targetDate skillId hour) = Some e"
    by simp_all
  from hourly_loop_rejected [OF \<open>hour \<in> set [0..<24]\<close> op rej, of "[]" rows]
  show "\<exists>msg. fst (generateHourlyForecasts db rows channelId targetDate skillId) =
                  Inl (StorageError msg)"
    by (simp add: generateHourlyForecasts_def ch)
next
  fix channel hour e
  assume a: "findChannel db channelId = Inr (Some channel) \<and> hour < 24 \<and>
      isOperatingHour hour channel \<and>
      rejectCreate db (hourly_forecast db channelId channel targetDate skillId hour) = Some e \<and>
      (\<forall>h < hour. isOperatingHour h channel \<longrightarrow>
         rejectCreate db (hourly_forecast db channelId channel targetDate skillId h) = None)"
  then have ch: "findChannel db channelId = Inr (Some channel)"
    and h: "hour < 24"
    and op: "isOperatingHour hour channel"
    and rej: "rejectCreate db (hourly_forecast db channelId channel targetDate skillId hour) = Some e"
    and acc: "\<forall>h \<in> set [0..<hour]. isOperatingHour h channel \<longrightarrow>
         rejectCreate db (hourly_forecast db channelId channel targetDate skillId h) = None"
    by simp_all
  from hourly_loop_refused [OF op rej acc, of "[Suc hour..<24]" "[]" rows]
  show "generateHourlyForecasts db rows channelId targetDate skillId =
            (Inl (StorageError e),
             rows @ batch_forecasts db channelId channel targetDate skillId [0..<hour])"
    by (simp add: generateHourlyForecasts_def ch hours_split [OF h, symmetric])
qed

text \<open>The amended statement on a channel that does not exist, on a storage whose history
  reads all fail and on a storage that refuses the write for hour 9: the row of hour 8
  stays stored and none is written for hour 10.\<close>

theorem generateHourlyForecasts_failures_witness:
  "generateHourlyForecasts ex_db [] ''email'' ex_date None = (Inl ChannelNotFound, []) \<and>
   generateHourlyForecasts ex_db [] ''voice'' ex_date None =
     (Inr (batch_forecasts ex_db ''voice'' ex_short_channel ex_date None [0..<24]),
      batch_forecasts ex_db ''voice'' ex_short_channel ex_date None [0..<24]) \<and>
   getHistoricalData ex_db ''voice'' 8 None = [] \<and>
   generateHourlyForecasts ex_db_write_fails [] ''voice'' ex_date None =
     (Inl (StorageError ''write failed''),
      [hourly_forecast ex_db_write_fails ''voice'' ex_short_channel ex_date None 8])"
proof (intro conjI)
  note t1 = generateHourlyForecasts_failures [of ex_db "[]" "''email''" ex_date None]
  note t2 = generateHourlyForecasts_failures [of ex_db "[]" "''voice''" ex_date None]
  note t3 = generateHourlyForecasts_failures [of ex_db_write_fails "[]" "''voice''" ex_date None]
  from t1 have "fst (generateHourlyForecasts ex_db [] ''email'' ex_date None) = Inl ChannelNotFound"
    and "snd (generateHourlyForecasts ex_db [] ''email'' ex_date None) = []"
    by (simp_all only: ex_db_fields simp_thms)
  then show "generateHourlyForecasts ex_db [] ''email'' ex_date None = (Inl ChannelNotFound, [])"
    by (simp add: prod_eq_iff)
  from t2 have "findChannel ex_db ''voice'' = Inr (Some ex_short_channel) \<and>
      (\<forall>forecast. rejectCreate ex_db forecast = None) \<longrightarrow>
        generateHourlyForecasts ex_db [] ''voice'' ex_date None =
          (Inr (batch_forecasts ex_db ''voice'' ex_short_channel ex_date None [0..<24]),
           [] @ batch_forecasts ex_db ''voice'' ex_short_channel ex_date None [0..<24])"
    by (elim conjE allE)
  then show "generateHourlyForecasts ex_db [] ''voice'' ex_date None =
     (Inr (batch_forecasts ex_db ''voice'' ex_short_channel ex_date None [0..<24]),
      batch_forecasts ex_db ''voice'' ex_short_channel ex_date None [0..<24])"
    by (simp only: ex_db_fields simp_thms append_Nil)
  from t2 have "findHistory ex_db ''voice'' 8 None = Inl ''connection lost'' \<longrightarrow>
      getHistoricalData ex_db ''voice'' 8 None = []"
    by (elim conjE allE)
  then show "getHistoricalData ex_db ''voice'' 8 None = []"
    by (simp only: ex_db_fields simp_thms)
  have b: "batch_forecasts ex_db_write_fails ''voice'' ex_short_channel ex_date None [0..<9] =
      [hourly_forecast ex_db_write_fails ''voice'' ex_short_channel ex_date None 8]"
  proof -
    have "[0..<9] = [0, 1, 2, 3, 4, 5, 6, 7, 8::nat]"
      by code_simp
    then show ?thesis
      by (simp add: batch_forecasts_def ex_operating_hour)
  qed
  from t3 have "findChannel ex_db_write_fails ''voice'' = Inr (Some ex_short_channel) \<and> (9::nat) < 24 \<and>
      isOperatingHour 9 ex_short_channel \<and>
      rejectCreate ex_db_write_fails
        (hourly_forecast ex_db_write_fails ''voice'' ex_short_channel ex_date None 9) =
          Some ''write failed'' \<and>
      (\<forall>h < 9. isOperatingHour h ex_short_channel \<longrightarrow>
         rejectCreate ex_db_write_fails
           (hourly_forecast ex_db_write_fails ''voice'' ex_short_channel ex_date None h) = None)
      \<longrightarrow> generateHourlyForecasts ex_db_write_fails [] ''voice'' ex_date None =
            (Inl (StorageError ''write failed''),
             [] @ batch_forecasts ex_db_write_fails ''voice'' ex_short_channel ex_date None [0..<9])"
    by (elim conjE allE)
  then show "generateHourlyForecasts ex_db_write_fails [] ''voice'' ex_date None =
     (Inl (StorageError ''write failed''),
      [hourly_forecast ex_db_write_fails ''voice'' ex_short_channel ex_date None 8])"
    by (simp add: ex_db_fields ex_operating_hour hourly_forecast_fields b)
qed

text \<open>
  C4 as stated fails. On a channel open from 08:00 to 11:00 whose write for hour 9 is
  refused, the batch fails with that error: hour 9 is not skipped, no forecast is
  returned, and the only row stored is the one of hour 8, none for hour 10. And when
  every historical-data read fails, no hour is skipped: the three hours get the fallback
  forecast of volume 10.
\<close>

theorem generateHourlyForecasts_failures_counterexample:
  "fst (generateHourlyForecasts ex_db_write_fails [] ''voice'' ex_date None) =
     Inl (StorageError ''write failed'') \<and>
   map forecast_hour (snd (generateHourlyForecasts ex_db_write_fails [] ''voice'' ex_date None)) =
     [8] \<and>
   (\<exists>forecasts.
      fst (generateHourlyForecasts ex_db [] ''voice'' ex_date None) = Inr forecasts \<and>
      map forecast_hour forecasts = [8, 9, 10] \<and>
      map predicted_volume forecasts = [Num 10, Num 10, Num 10])"
proof (intro conjI exI)
  have run: "generateHourlyForecasts ex_db_write_fails [] ''voice'' ex_date None =
     (Inl (StorageError ''write failed''),
      [hourly_forecast ex_db_write_fails ''voice'' ex_short_channel ex_date None 8])"
    by (simp add: generateHourlyForecasts_def ex_db_fields hours_of_day ex_operating_hour
        Forecast_create_cases hourly_forecast_fields)
  show "fst (generateHourlyForecasts ex_db_write_fails [] ''voice'' ex_date None) =
     Inl (StorageError ''write failed'')"
    by (simp add: run)
  show "map forecast_hour
      (snd (generateHourlyForecasts ex_db_write_fails [] ''voice'' ex_date None)) = [8]"
    by (simp add: run hourly_forecast_fields)
  show "fst (generateHourlyForecasts ex_db [] ''voice'' ex_date None) =
          Inr (batch_forecasts ex_db ''voice'' ex_short_channel ex_date None [0..<24])"
    by (simp add: generateHourlyForecasts_def ex_db_fields hourly_loop_accepting)
  show "map forecast_hour
      (batch_forecasts ex_db ''voice'' ex_short_channel ex_date None [0..<24]) = [8, 9, 10]"
    by (simp only: batch_forecasts_hours ex_operating_hours)
  show "map predicted_volume
      (batch_forecasts ex_db ''voice'' ex_short_channel ex_date None [0..<24]) =
        [Num 10, Num 10, Num 10]"
    by (subst batch_forecasts_fallback) (simp_all add: ex_db_fields ex_operating_hours)
qed

text \<open>
  C5. The forecasts a call returns are determined by the channel and the historical data:
  two calls for the same channel, date and skill, on storages with the same channel and
  the same history, that both return forecasts return the same ones, whatever rows are
  stored. And with the unique index enforced, a call that returns forecasts has stored
  them, and the same call repeated on the rows it leaves returns the same forecasts
  again: the rows it writes have NULL in the channel and skill columns and so collide
  with no stored row.
\<close>

theorem generateHourlyForecasts_repeatable:
  "(findChannel db1 channelId = findChannel db2 channelId \<and>
    (\<forall>hour. findHistory db1 channelId hour skillId = findHistory db2 channelId hour skillId) \<and>
    fst (generateHourlyForecasts db1 rows1 channelId targetDate skillId) = Inr forecasts1 \<and>
    fst (generateHourlyForecasts db2 rows2 channelId targetDate skillId) = Inr forecasts2
      \<longrightarrow> forecasts1 = forecasts2) \<and>
   (generateHourlyForecasts db1 rows1 channelId targetDate skillId = (Inr forecasts1, rows')
      \<longrightarrow> rows' = rows1 @ forecasts1 \<and>
          generateHourlyForecasts db1 rows' channelId targetDate skillId =
            (Inr forecasts1, rows' @ forecasts1))"
proof (intro conjI impI)
  assume a: "findChannel db1 channelId = findChannel db2 channelId \<and>
    (\<forall>hour. findHistory db1 channelId hour skillId = findHistory db2 channelId hour skillId) \<and>
    fst (generateHourlyForecasts db1 rows1 channelId targetDate skillId) = Inr forecasts1 \<and>
    fst (generateHourlyForecasts db2 rows2 channelId targetDate skillId) = Inr forecasts2"
  then have same: "findChannel db1 channelId = findChannel db2 channelId"
    and hist: "\<forall>hour. findHistory db1 channelId hour skillId = findHistory db2 channelId hour skillId"
    and r1: "fst (generateHourlyForecasts db1 rows1 channelId targetDate skillId) = Inr forecasts1"
    and r2: "fst (generateHourlyForecasts db2 rows2 channelId targetDate skillId) = Inr forecasts2"
    by simp_all
  from generateHourlyForecasts_Inr [OF r1] obtain c1 where
    c1: "findChannel db1 channelId = Inr (Some c1)"
    and f1: "forecasts1 = batch_forecasts db1 channelId c1 targetDate skillId [0..<24]"
    by blast
  from generateHourlyForecasts_Inr [OF r2] obtain c2 where
    c2: "findChannel db2 channelId = Inr (Some c2)"
    and f2: "forecasts2 = batch_forecasts db2 channelId c2 targetDate skillId [0..<24]"
    by blast
  from same c1 c2 have "c1 = c2" by simp
  with f1 f2 batch_forecasts_history [OF hist] show "forecasts1 = forecasts2"
    by simp
next
  assume run: "generateHourlyForecasts db1 rows1 channelId targetDate skillId =
                 (Inr forecasts1, rows')"
  then have "fst (generateHourlyForecasts db1 rows1 channelId targetDate skillId) = Inr forecasts1"
    by simp
  from generateHourlyForecasts_Inr [OF this] obtain channel where
    ch: "findChannel db1 channelId = Inr (Some channel)"
    and g: "generateHourlyForecasts db1 rows1 channelId targetDate skillId =
             (Inr forecasts1, rows1 @ forecasts1)"
    and f: "forecasts1 = batch_forecasts db1 channelId channel targetDate skillId [0..<24]"
    and acc: "\<forall>hour \<in> set [0..<24]. isOperatingHour hour channel \<longrightarrow>
              rejectCreate db1 (hourly_forecast db1 channelId channel targetDate skillId hour) = None"
    by blast
  from run g show "rows' = rows1 @ forecasts1"
    by simp
  from hourly_loop_accepted [OF acc, of "[]" rows']
  show "generateHourlyForecasts db1 rows' channelId targetDate skillId =
            (Inr forecasts1, rows' @ forecasts1)"
    by (simp add: generateHourlyForecasts_def ch f)
qed

text \<open>The statement on the storage whose history reads fail: the first call stores the
  forecasts of the hours 8, 9 and 10, and the second call, on these rows, returns the
  same forecasts and stores them once more. The storage that refuses a volume that is not
  a number returns the same forecasts too.\<close>

theorem generateHourlyForecasts_repeatable_witness:
  "generateHourlyForecasts ex_db [] ''voice'' ex_date None =
     (Inr (batch_forecasts ex_db ''voice'' ex_short_channel ex_date None [0..<24]),
      batch_forecasts ex_db ''voice'' ex_short_channel ex_date None [0..<24]) \<and>
   map forecast_hour (batch_forecasts ex_db ''voice'' ex_short_channel ex_date None [0..<24]) =
     [8, 9, 10] \<and>
   generateHourlyForecasts ex_db
       (batch_forecasts ex_db ''voice'' ex_short_channel ex_date None [0..<24])
       ''voice'' ex_date None =
     (Inr (batch_forecasts ex_db ''voice'' ex_short_channel ex_date None [0..<24]),
      batch_forecasts ex_db ''voice'' ex_short_channel ex_date None [0..<24] @
      batch_forecasts ex_db ''voice'' ex_short_channel ex_date None [0..<24]) \<and>
   fst (generateHourlyForecasts ex_db_strict [] ''voice'' ex_date None) =
     fst (generateHourlyForecasts ex_db [] ''voice'' ex_date None)"
proof (intro conjI)
  let ?b = "batch_forecasts ex_db ''voice'' ex_short_channel ex_date None [0..<24]"
  let ?h = "batch_forecasts ex_db_strict ''voice'' ex_short_channel ex_date None [0..<24]"
  show r1: "generateHourlyForecasts ex_db [] ''voice'' ex_date None = (Inr ?b, ?b)"
    by (simp add: generateHourlyForecasts_def ex_db_fields hourly_loop_accepting)
  show "map forecast_hour ?b = [8, 9, 10]"
    by (simp only: batch_forecasts_hours ex_operating_hours)
  note t = generateHourlyForecasts_repeatable
    [where ?db1.0 = ex_db and ?db2.0 = ex_db_strict and channelId = "''voice''"
       and skillId = None and targetDate = ex_date and ?rows1.0 = "[]" and ?rows2.0 = "[]"
       and ?forecasts1.0 = ?b and ?forecasts2.0 = ?h and rows' = ?b]
  from t have "generateHourlyForecasts ex_db [] ''voice'' ex_date None = (Inr ?b, ?b)
      \<longrightarrow> ?b = [] @ ?b \<and>
          generateHourlyForecasts ex_db ?b ''voice'' ex_date None = (Inr ?b, ?b @ ?b)"
    by (rule conjunct2)
  with r1 show "generateHourlyForecasts ex_db ?b ''voice'' ex_date None = (Inr ?b, ?b @ ?b)"
    by (elim impE conjE) assumption+
  have "rejectCreate ex_db_strict
          (hourly_forecast ex_db_strict ''voice'' ex_short_channel ex_date None hour) = None" for hour
    by (simp add: ex_db_strict_fields ex_db_fields hourly_forecast_fields getHistoricalData_def
        calculatePredictedVolume_def)
  then have r2: "fst (generateHourlyForecasts ex_db_strict [] ''voice'' ex_date None) = Inr ?h"
    by (simp add: generateHourlyForecasts_def ex_db_strict_fields ex_db_fields
        hourly_loop_accepted)
  from t have "findChannel ex_db ''voice'' = findChannel ex_db_strict ''voice'' \<and>
    (\<forall>hour. findHistory ex_db ''voice'' hour None = findHistory ex_db_strict ''voice'' hour None) \<and>
    fst (generateHourlyForecasts ex_db [] ''voice'' ex_date None) = Inr ?b \<and>
    fst (generateHourlyForecasts ex_db_strict [] ''voice'' ex_date None) = Inr ?h
      \<longrightarrow> ?b = ?h"
    by (rule conjunct1)
  with r1 r2 have "?b = ?h"
    by (simp add: ex_db_fields ex_db_strict_fields)
  with r1 r2 show "fst (generateHourlyForecasts ex_db_strict [] ''voice'' ex_date None) =
     fst (generateHourlyForecasts ex_db [] ''voice'' ex_date None)"
    by simp
qed

section \<open>Properties of the schedule generation\<close>

lemma generateOptimizedSchedule_Inr:
  assumes "fst (generateOptimizedSchedule storage db scheduleData) =
             Inr (schedule, savedShifts, metrics)"
  shows "\<exists>created.
           metrics = calculateScheduleMetrics created savedShifts \<and>
           schedule =
             created\<lparr>service_level_achieved := Some (serviceLevel metrics),
                      coverage_percentage := Some (coverage metrics),
                      total_labor_cost := Some (totalCost metrics),
                      schedule_status := ''generated''\<rparr>"
  using assms
  by (auto simp: generateOptimizedSchedule_def Let_def
      split: prod.splits sum.splits option.splits)

text \<open>
  C10. Whatever the schedule and the shifts are, the computed metrics have the service
  level 0.85 and the coverage 0.90, and the total cost is the sum of the \<open>total_cost\<close>
  fields of the shifts, a missing one counting as 0. So for every schedule that
  \<open>generateOptimizedSchedule\<close> generates successfully, the returned metrics are these, over
  the saved shifts, and the schedule carries them.
\<close>

theorem generateOptimizedSchedule_metrics:
  "calculateScheduleMetrics anySchedule shifts =
     \<lparr>serviceLevel = 0.85, coverage = 0.90,
      totalCost = (\<Sum>s\<leftarrow>shifts. case total_cost s of None \<Rightarrow> 0 | Some c \<Rightarrow> c),
      efficiency = 0.88\<rparr> \<and>
   (fst (generateOptimizedSchedule storage db scheduleData) =
      Inr (schedule, savedShifts, metrics) \<longrightarrow>
    metrics =
      \<lparr>serviceLevel = 0.85, coverage = 0.90,
       totalCost = (\<Sum>s\<leftarrow>savedShifts. case total_cost s of None \<Rightarrow> 0 | Some c \<Rightarrow> c),
       efficiency = 0.88\<rparr> \<and>
    service_level_achieved schedule = Some 0.85 \<and>
    coverage_percentage schedule = Some 0.90 \<and>
    total_labor_cost schedule =
      Some (\<Sum>s\<leftarrow>savedShifts. case total_cost s of None \<Rightarrow> 0 | Some c \<Rightarrow> c) \<and>
    schedule_status schedule = ''generated'')"
proof (intro conjI impI)
  show "calculateScheduleMetrics anySchedule shifts =
     \<lparr>serviceLevel = 0.85, coverage = 0.90,
      totalCost = (\<Sum>s\<leftarrow>shifts. case total_cost s of None \<Rightarrow> 0 | Some c \<Rightarrow> c),
      efficiency = 0.88\<rparr>"
    by (rule calculateScheduleMetrics_constants)
next
  assume "fst (generateOptimizedSchedule storage db scheduleData) =
      Inr (schedule, savedShifts, metrics)"
  from generateOptimizedSchedule_Inr [OF this] obtain created where
    m: "metrics = calculateScheduleMetrics created savedShifts"
    and s: "schedule =
             created\<lparr>service_level_achieved := Some (serviceLevel metrics),
                      coverage_percentage := Some (coverage metrics),
                      total_labor_cost := Some (totalCost metrics),
                      schedule_status := ''generated''\<rparr>"
    by blast
  show m': "metrics =
      \<lparr>serviceLevel = 0.85, coverage = 0.90,
       totalCost = (\<Sum>s\<leftarrow>savedShifts. case total_cost s of None \<Rightarrow> 0 | Some c \<Rightarrow> c),
       efficiency = 0.88\<rparr>"
    unfolding m by (rule calculateScheduleMetrics_constants)
  show "service_level_achieved schedule = Some 0.85"
    by (subst s) (simp add: m')
  show "coverage_percentage schedule = Some 0.90"
    by (subst s) (simp add: m')
  show "total_labor_cost schedule =
      Some (\<Sum>s\<leftarrow>savedShifts. case total_cost s of None \<Rightarrow> 0 | Some c \<Rightarrow> c)"
    by (subst s) (simp add: m')
  show "schedule_status schedule = ''generated''"
    by (subst s) simp
qed

text \<open>The statement on a run for two days with one agent: ten shifts are saved, none with
  a cost, and the total cost is 0.\<close>

lemma merge_no_overrides:
  "merge_constraints getDefaultConstraints no_overrides = getDefaultConstraints"
  "merge_preferences getDefaultOptimizationPreferences no_preferences =
     getDefaultOptimizationPreferences"
  by (simp_all add: merge_constraints_def merge_preferences_def no_overrides_def
      no_preferences_def spread_def getDefaultConstraints_def
      getDefaultOptimizationPreferences_def)

lemma ex_daily_shifts:
  "\<exists>s1 s2 s3 s4 s5.
     generateDailyShifts d [ex_agent ''a1''] [] [] getDefaultConstraints =
       Inr [s1, s2, s3, s4, s5] \<and>
     (\<forall>s \<in> set [s1, s2, s3, s4, s5].
        start_time s < end_time s \<and> hourly_rate s = None \<and> total_cost s = None)"
  by (simp add: assignment_eval)

lemma ex_run:
  "\<exists>schedule shifts metrics.
     fst (generateOptimizedSchedule ex_storage [] ex_schedule_data) =
       Inr (schedule, shifts, metrics) \<and>
     length shifts = 10 \<and> (\<forall>s \<in> set shifts. total_cost s = None)"
proof -
  from ex_daily_shifts [of 0] obtain s1 s2 s3 s4 s5 where
    d0: "generateDailyShifts 0 [ex_agent ''a1''] [] [] getDefaultConstraints =
       Inr [s1, s2, s3, s4, s5]"
    and ok0: "\<forall>s \<in> set [s1, s2, s3, s4, s5].
        start_time s < end_time s \<and> hourly_rate s = None \<and> total_cost s = None"
    by blast
  from ex_daily_shifts [of "Suc 0"] obtain t1 t2 t3 t4 t5 where
    d1: "generateDailyShifts (Suc 0) [ex_agent ''a1''] [] [] getDefaultConstraints =
       Inr [t1, t2, t3, t4, t5]"
    and ok1: "\<forall>s \<in> set [t1, t2, t3, t4, t5].
        start_time s < end_time s \<and> hourly_rate s = None \<and> total_cost s = None"
    by blast
  have days: "[0..<Suc 1] = [0, 1]"
    by code_simp
  show ?thesis
    using ok0 ok1
    by (simp add: generateOptimizedSchedule_def ex_storage_def ex_schedule_data_def
        merge_no_overrides timeOffRequests_on_def days d0 d1 optimizeSchedule_def
        getDefaultOptimizationPreferences_def balanceWorkload_def minimizeOvertime_def
        optimizeForAgentPreferences_def optimizeForServiceLevel_def Shift_create_def Let_def)
qed

lemma no_costs:
  "\<forall>s \<in> set shifts. total_cost s = None \<Longrightarrow>
   (\<Sum>s\<leftarrow>shifts. case total_cost s of None \<Rightarrow> 0 | Some c \<Rightarrow> c) = (0::real)"
  by (induction shifts) simp_all

theorem generateOptimizedSchedule_metrics_witness:
  "\<exists>schedule shifts metrics.
     fst (generateOptimizedSchedule ex_storage [] ex_schedule_data) =
       Inr (schedule, shifts, metrics) \<and>
     serviceLevel metrics = 0.85 \<and> coverage metrics = 0.90 \<and> totalCost metrics = 0 \<and>
     service_level_achieved schedule = Some 0.85 \<and> total_labor_cost schedule = Some 0"
proof -
  from ex_run obtain schedule shifts metrics where
    run: "fst (generateOptimizedSchedule ex_storage [] ex_schedule_data) =
            Inr (schedule, shifts, metrics)"
    and none: "\<forall>s \<in> set shifts. total_cost s = None"
    by blast
  from generateOptimizedSchedule_metrics
    [of schedule shifts ex_storage "[]" ex_schedule_data schedule shifts metrics] run
  have "metrics =
      \<lparr>serviceLevel = 0.85, coverage = 0.90,
       totalCost = (\<Sum>s\<leftarrow>shifts. case total_cost s of None \<Rightarrow> 0 | Some c \<Rightarrow> c),
       efficiency = 0.88\<rparr>"
    and "service_level_achieved schedule = Some 0.85"
    and "total_labor_cost schedule =
      Some (\<Sum>s\<leftarrow>shifts. case total_cost s of None \<Rightarrow> 0 | Some c \<Rightarrow> c)"
    by blast+
  with run no_costs [OF none] show ?thesis
    by (intro exI [of _ schedule] exI [of _ shifts] exI [of _ metrics]) simp
qed

end
